theory Spec2Isabelle
  imports Main "HOL-Library.Word"
begin

section \<open>The gateway of \<open>server.js\<close>, embedded\<close>

text \<open>
  \<open>server.js\<close> is one Express process with six module-level variables and eight
  route handlers. Every handler is embedded as a function from the request, the
  module-level variables (\<open>globals\<close>) and the outside world (\<open>'w io\<close>) to the HTTP
  response, the new variables and the new outside world.

  The outside world is everything the file imports and calls: the Telegram client library,
  \<open>fs.unlinkSync\<close> and \<open>path.resolve\<close>. It is a parameter (\<open>'w env\<close>): each
  operation takes the world's state and gives back either the thrown exception (\<open>Inl\<close>)
  or the returned value (\<open>Inr\<close>), and the next state of the world. Every call a handler
  makes is appended to the \<open>calls\<close> log, so that "no external call is made" and "the
  calls made are exactly these" are statements about that list.
\<close>

subsection \<open>JavaScript values the handlers look at\<close>

type_synonym exn = string   \<comment> \<open>an exception, as \<open>err.toString()\<close> renders it\<close>

text \<open>
  A field of a JSON request body that the spec types as a string is \<open>string option\<close>
  (\<open>None\<close>: the field is absent); \<open>apiId\<close> is \<open>int option\<close>. \<open>!v\<close> is
  \<open>falsy\<close>: an absent field, the empty string and \<open>0\<close>.
\<close>

definition falsy_str :: "string option \<Rightarrow> bool" where
  "falsy_str v = (case v of None \<Rightarrow> True | Some s \<Rightarrow> s = [])"

definition falsy_num :: "int option \<Rightarrow> bool" where
  "falsy_num v = (case v of None \<Rightarrow> True | Some n \<Rightarrow> n = 0)"

text \<open>\<open>Number(v)\<close> on a number is the number; \<open>Number(null)\<close> is \<open>0\<close>.\<close>

definition Number :: "int option \<Rightarrow> int" where
  "Number v = (case v of None \<Rightarrow> 0 | Some n \<Rightarrow> n)"

text \<open>
  What a lookup \<open>phoneState[phone]\<close> can give: \<open>undefined\<close>, the \<open>null\<close> or the
  string that \<open>sendCode\<close> stored, or a member that the object literal \<open>{}\<close> inherits
  from \<open>Object.prototype\<close> (a function or an object, named by its key).
\<close>

datatype jsval = JUndefined | JNull | JStr string | JInherited string

fun truthy :: "jsval \<Rightarrow> bool" where
  "truthy JUndefined = False"
| "truthy JNull = False"
| "truthy (JStr s) = (s \<noteq> [])"
| "truthy (JInherited k) = True"

subsection \<open>\<open>const phoneState = {}\<close>\<close>

text \<open>
  \<open>phoneState\<close> is a plain object used as a dictionary. It has its own properties
  (\<open>own\<close>) and, as long as nothing has replaced it, the prototype \<open>Object.prototype\<close>
  (\<open>proto_intact\<close>). A read looks at the own properties first and then at the prototype.
  A write creates or updates an own property, except for the key \<open>__proto__\<close> while the
  prototype is in place: that key is the accessor of \<open>Object.prototype\<close>, whose setter
  removes the prototype when given \<open>null\<close> and ignores a string.
\<close>

record phone_map =
  own :: "string \<rightharpoonup> jsval"
  proto_intact :: bool

definition object_prototype_keys :: "string list" where
  "object_prototype_keys =
     [''constructor'', ''__defineGetter__'', ''__defineSetter__'', ''hasOwnProperty'',
      ''__lookupGetter__'', ''__lookupSetter__'', ''isPrototypeOf'',
      ''propertyIsEnumerable'', ''toString'', ''valueOf'', ''__proto__'',
      ''toLocaleString'']"

definition empty_phone_map :: phone_map where
  "empty_phone_map = \<lparr>own = Map.empty, proto_intact = True\<rparr>"

definition pm_get :: "phone_map \<Rightarrow> string \<Rightarrow> jsval" where
  "pm_get pm k =
     (case own pm k of
        Some v \<Rightarrow> v
      | None \<Rightarrow>
          if proto_intact pm \<and> k \<in> set object_prototype_keys then JInherited k
          else JUndefined)"

definition pm_set :: "phone_map \<Rightarrow> string \<Rightarrow> jsval \<Rightarrow> phone_map" where
  "pm_set pm k v =
     (if k = ''__proto__'' \<and> proto_intact pm \<and> own pm k = None
      then (if v = JNull then pm\<lparr>proto_intact := False\<rparr> else pm)
      else pm\<lparr>own := (own pm)(k \<mapsto> v)\<rparr>)"

subsection \<open>The objects of the client library\<close>

text \<open>
  A \<open>TelegramClient\<close> object: its identity, and whether each method that the handlers
  test with \<open>typeof ... === 'function'\<close> or call with \<open>?.()\<close> is a function of this
  library version.
\<close>

record tgclient =
  cid :: nat
  has_sendCodeRequest :: bool
  has_sendCode :: bool
  has_signIn :: bool
  has_qrLogin :: bool
  has_disconnect :: bool

text \<open>The result of a code request, with the three field names the handler reads.\<close>

record sent_code =
  phoneCodeHash :: "string option"
  phone_code_hash :: "string option"
  underscore :: "string option"   \<comment> \<open>the field \<open>_\<close>\<close>

text \<open>The object \<open>qrLogin()\<close> returns: a token (a \<open>Buffer\<close>) and \<open>wait()\<close>.\<close>

record qr_login =
  qr_id :: nat
  token :: "8 word list"

text \<open>
  What \<open>Promise.race([qrWaiter.wait(), <reject 'pending' after 1000 ms>])\<close> settles to:
  the wait resolved first, the wait threw or rejected first, or the timer won.
\<close>

datatype wait_outcome = Confirmed | Rejected exn | TimedOut

record dialog =
  isChannel :: bool
  dialog_id :: int     \<comment> \<open>the field \<open>id\<close>, a big integer\<close>
  title :: string

text \<open>A file as \<open>multer\<close> staged it.\<close>

record upload =
  path :: string
  originalname :: string

subsection \<open>The outside world\<close>

datatype call =
    NewTelegramClient string int "string option"
  | Connect tgclient
  | Disconnect tgclient
  | SendCodeRequest tgclient string
  | SendCode tgclient string
  | SignInObject tgclient string string jsval
  | SignInPositional tgclient string string
  | SessionSave tgclient
  | QrLogin tgclient
  | QrWait qr_login
  | GetDialogs tgclient
  | SendFile tgclient string string string
  | SendMessage tgclient string string string
  | UnlinkSync string

record 'w env =
  new_TelegramClient :: "string \<Rightarrow> int \<Rightarrow> string option \<Rightarrow> 'w \<Rightarrow> (exn + tgclient) \<times> 'w"
  connect :: "tgclient \<Rightarrow> 'w \<Rightarrow> (exn + unit) \<times> 'w"
  disconnect :: "tgclient \<Rightarrow> 'w \<Rightarrow> (exn + unit) \<times> 'w"
  sendCodeRequest :: "tgclient \<Rightarrow> string \<Rightarrow> 'w \<Rightarrow> (exn + sent_code) \<times> 'w"
  sendCode :: "tgclient \<Rightarrow> string \<Rightarrow> 'w \<Rightarrow> (exn + sent_code) \<times> 'w"
  signIn_object :: "tgclient \<Rightarrow> string \<Rightarrow> string \<Rightarrow> jsval \<Rightarrow> 'w \<Rightarrow> (exn + unit) \<times> 'w"
  signIn_positional :: "tgclient \<Rightarrow> string \<Rightarrow> string \<Rightarrow> 'w \<Rightarrow> (exn + unit) \<times> 'w"
  session_save :: "tgclient \<Rightarrow> 'w \<Rightarrow> (exn + string) \<times> 'w"
  qrLogin :: "tgclient \<Rightarrow> 'w \<Rightarrow> (exn + qr_login) \<times> 'w"
  qr_wait :: "qr_login \<Rightarrow> 'w \<Rightarrow> wait_outcome \<times> 'w"
  getDialogs :: "tgclient \<Rightarrow> 'w \<Rightarrow> (exn + dialog list) \<times> 'w"
  sendFile :: "tgclient \<Rightarrow> string \<Rightarrow> string \<Rightarrow> string \<Rightarrow> 'w \<Rightarrow> (exn + unit) \<times> 'w"
  sendMessage :: "tgclient \<Rightarrow> string \<Rightarrow> string \<Rightarrow> string \<Rightarrow> 'w \<Rightarrow> (exn + unit) \<times> 'w"
  unlinkSync :: "string \<Rightarrow> 'w \<Rightarrow> (exn + unit) \<times> 'w"
  path_resolve :: "string \<Rightarrow> string"

record 'w io =
  world :: 'w
  calls :: "call list"

text \<open>One external call: run the operation on the world and log the call.\<close>

definition ext :: "('w \<Rightarrow> 'r \<times> 'w) \<Rightarrow> call \<Rightarrow> 'w io \<Rightarrow> 'r \<times> 'w io" where
  "ext op c x =
     (case op (world x) of
        (r, w') \<Rightarrow> (r, \<lparr>world = w', calls = calls x @ [c]\<rparr>))"

subsection \<open>The module-level variables and the HTTP messages\<close>

record globals =
  client :: "tgclient option"
  sessionString :: string
  storedApiId :: "int option"
  storedApiHash :: "string option"
  phoneState :: phone_map
  qrWaiter :: "qr_login option"

definition initial_globals :: globals where
  "initial_globals =
     \<lparr>client = None, sessionString = [], storedApiId = None, storedApiHash = None,
      phoneState = empty_phone_map, qrWaiter = None\<rparr>"

record body =
  apiId :: "int option"
  apiHash :: "string option"
  phone :: "string option"
  code :: "string option"
  channelId :: "string option"

datatype channel = Channel (channel_id: string) (channel_title: string)   \<comment> \<open>\<open>{id, title}\<close>\<close>

datatype json =
    ErrorBody string           \<comment> \<open>\<open>{error}\<close>\<close>
  | OkBody                     \<comment> \<open>\<open>{ok: true}\<close>\<close>
  | OkSession string           \<comment> \<open>\<open>{ok: true, session}\<close>\<close>
  | OkQrData string            \<comment> \<open>\<open>{ok: true, qrData}\<close>\<close>
  | LoggedIn bool              \<comment> \<open>\<open>{loggedIn}\<close>\<close>
  | ChannelList "channel list"
  | StatusSent                 \<comment> \<open>\<open>{status: 'sent'}\<close>\<close>

type_synonym response = "nat \<times> json"   \<comment> \<open>HTTP status and JSON body\<close>

subsection \<open>\<open>createClient\<close>\<close>

text \<open>
  \<open>new_TelegramClient\<close> stands for the two constructor calls, \<open>new StringSession(s)\<close>
  and \<open>new TelegramClient(...)\<close>; \<open>existingSession || ''\<close> is the session itself when it
  is not empty. An exception of the constructors or of \<open>connect\<close> leaves the function.
\<close>

definition createClient ::
  "'w env \<Rightarrow> int option \<Rightarrow> string option \<Rightarrow> string \<Rightarrow> 'w io \<Rightarrow> (exn + tgclient) \<times> 'w io" where
  "createClient e apiId' apiHash' existingSession x =
     (case ext (new_TelegramClient e (if existingSession = [] then [] else existingSession)
                  (Number apiId') apiHash')
            (NewTelegramClient (if existingSession = [] then [] else existingSession)
                  (Number apiId') apiHash') x of
        (Inl err, x1) \<Rightarrow> (Inl err, x1)
      | (Inr tg, x1) \<Rightarrow>
          (case ext (connect e tg) (Connect tg) x1 of
             (Inl err, x2) \<Rightarrow> (Inl err, x2)
           | (Inr u, x2) \<Rightarrow> (Inr tg, x2)))"

subsection \<open>\<open>Buffer.toString('base64')\<close> and \<open>toString()\<close> of a big integer\<close>

text \<open>
  Node renders a \<open>Buffer\<close> in base64 with the standard alphabet and \<open>=\<close> padding:
  three bytes give four characters of six bits each.
\<close>

definition base64_alphabet :: string where
  "base64_alphabet =
     ''ABCDEFGHIJKLMNOPQRSTUVWXYZabcdefghijklmnopqrstuvwxyz0123456789+/''"

definition base64_char :: "nat \<Rightarrow> char" where
  "base64_char n = base64_alphabet ! (n mod 64)"

fun base64 :: "8 word list \<Rightarrow> string" where
  "base64 [] = []"
| "base64 [a] =
     (let n = unat a in
      [base64_char (n div 4), base64_char ((n mod 4) * 16), CHR ''='', CHR ''=''])"
| "base64 [a, b] =
     (let n = unat a * 256 + unat b in
      [base64_char (n div 1024), base64_char (n div 16), base64_char ((n mod 16) * 4),
       CHR ''=''])"
| "base64 (a # b # c # rest) =
     (let n = (unat a * 256 + unat b) * 256 + unat c in
      [base64_char (n div 262144), base64_char (n div 4096), base64_char (n div 64),
       base64_char n] @ base64 rest)"

text \<open>The decimal rendering of an integer, with \<open>-\<close> for a negative one.\<close>

definition digit_char :: "nat \<Rightarrow> char" where
  "digit_char d = ''0123456789'' ! (d mod 10)"

function toString_nat :: "nat \<Rightarrow> string" where
  "toString_nat n =
     (if n < 10 then [digit_char n] else toString_nat (n div 10) @ [digit_char (n mod 10)])"
  by pat_completeness auto
termination
  by (relation "measure (\<lambda>n. n)") auto

declare toString_nat.simps [simp del]

definition toString_int :: "int \<Rightarrow> string" where
  "toString_int i =
     (if i < 0 then CHR ''-'' # toString_nat (nat (- i)) else toString_nat (nat i))"

subsection \<open>\<open>POST /auth/start\<close>\<close>

definition auth_start ::
  "'w env \<Rightarrow> body \<Rightarrow> globals \<Rightarrow> 'w io \<Rightarrow> response \<times> globals \<times> 'w io" where
  "auth_start e b g x =
     (if falsy_num (apiId b) \<or> falsy_str (apiHash b)
      then ((400, ErrorBody ''apiId & apiHash required''), g, x)
      else
        let g1 = g\<lparr>storedApiId := Some (Number (apiId b)), storedApiHash := apiHash b\<rparr> in
        case createClient e (apiId b) (apiHash b) (sessionString g1) x of
          (Inl err, x1) \<Rightarrow> ((500, ErrorBody err), g1, x1)
        | (Inr tg, x1) \<Rightarrow> ((200, OkBody), g1\<lparr>client := Some tg\<rparr>, x1))"

subsection \<open>\<open>POST /auth/sendCode\<close>\<close>

text \<open>
  The code request: \<open>sendCodeRequest\<close> when it is a function, else \<open>sendCode\<close>; calling
  \<open>sendCode\<close> when that is no function either throws a \<open>TypeError\<close>, and nothing is
  called.
\<close>

definition request_code ::
  "'w env \<Rightarrow> tgclient \<Rightarrow> string \<Rightarrow> 'w io \<Rightarrow> (exn + sent_code) \<times> 'w io" where
  "request_code e c p x =
     (if has_sendCodeRequest c then ext (sendCodeRequest e c p) (SendCodeRequest c p) x
      else if has_sendCode c then ext (sendCode e c p) (SendCode c p) x
      else (Inl ''TypeError: client.sendCode is not a function'', x))"

fun js_field :: "string option \<Rightarrow> jsval" where
  "js_field None = JUndefined"
| "js_field (Some s) = JStr s"

text \<open>
  \<open>result.phoneCodeHash || result.phone_code_hash || (result._ ? result._ : null)\<close>
\<close>

definition pick_phone_code_hash :: "sent_code \<Rightarrow> jsval" where
  "pick_phone_code_hash r =
     (if truthy (js_field (phoneCodeHash r)) then js_field (phoneCodeHash r)
      else if truthy (js_field (phone_code_hash r)) then js_field (phone_code_hash r)
      else if truthy (js_field (underscore r)) then js_field (underscore r)
      else JNull)"

text \<open>
  \<open>if (!phone)\<close> is written as the case distinction on the field: absent, or present and
  empty, is the 400 answer.
\<close>

definition auth_sendCode ::
  "'w env \<Rightarrow> body \<Rightarrow> globals \<Rightarrow> 'w io \<Rightarrow> response \<times> globals \<times> 'w io" where
  "auth_sendCode e b g x =
     (case client g of
        None \<Rightarrow> ((400, ErrorBody ''client not initialized (call /auth/start)''), g, x)
      | Some c \<Rightarrow>
          (case phone b of
             None \<Rightarrow> ((400, ErrorBody ''phone required''), g, x)
           | Some p \<Rightarrow>
               if p = [] then ((400, ErrorBody ''phone required''), g, x)
               else
                 (case request_code e c p x of
                    (Inl err, x1) \<Rightarrow> ((500, ErrorBody err), g, x1)
                  | (Inr result, x1) \<Rightarrow>
                      ((200, OkBody),
                       g\<lparr>phoneState := pm_set (phoneState g) p (pick_phone_code_hash result)\<rparr>,
                       x1))))"

subsection \<open>\<open>POST /auth/verify\<close>\<close>

text \<open>
  The sign-in: when \<open>signIn\<close> is a function, the object-shaped call and, if it throws,
  the positional call; when it is not, the positional call in the \<open>else\<close> branch is a
  \<open>TypeError\<close> and nothing is called.
\<close>

definition sign_in ::
  "'w env \<Rightarrow> tgclient \<Rightarrow> string \<Rightarrow> string \<Rightarrow> jsval \<Rightarrow> 'w io \<Rightarrow> (exn + unit) \<times> 'w io" where
  "sign_in e c p cd h x =
     (if has_signIn c then
        (case ext (signIn_object e c p cd h) (SignInObject c p cd h) x of
           (Inl err, x1) \<Rightarrow> ext (signIn_positional e c p cd) (SignInPositional c p cd) x1
         | (Inr u, x1) \<Rightarrow> (Inr u, x1))
      else (Inl ''TypeError: client.signIn is not a function'', x))"

definition auth_verify ::
  "'w env \<Rightarrow> body \<Rightarrow> globals \<Rightarrow> 'w io \<Rightarrow> response \<times> globals \<times> 'w io" where
  "auth_verify e b g x =
     (case client g of
        None \<Rightarrow> ((400, ErrorBody ''client not initialized''), g, x)
      | Some c \<Rightarrow>
          (case phone b of
             None \<Rightarrow> ((400, ErrorBody ''phone & code required''), g, x)
           | Some p \<Rightarrow>
               (case code b of
                  None \<Rightarrow> ((400, ErrorBody ''phone & code required''), g, x)
                | Some cd \<Rightarrow>
                    if p = [] \<or> cd = [] then ((400, ErrorBody ''phone & code required''), g, x)
                    else
                      let h = pm_get (phoneState g) p in
                      if \<not> truthy h then
                        ((400, ErrorBody
                            ''no phone_code_hash for this phone. Call /auth/sendCode first''),
                         g, x)
                      else
                        (case sign_in e c p cd h x of
                           (Inl err, x1) \<Rightarrow> ((500, ErrorBody err), g, x1)
                         | (Inr u, x1) \<Rightarrow>
                             (case ext (session_save e c) (SessionSave c) x1 of
                                (Inl err, x2) \<Rightarrow> ((500, ErrorBody err), g, x2)
                              | (Inr s, x2) \<Rightarrow>
                                  ((200, OkSession s), g\<lparr>sessionString := s\<rparr>, x2))))))"

subsection \<open>\<open>POST /auth/qr/start\<close>, \<open>GET /auth/qr/status\<close>, \<open>POST /auth/qr/cancel\<close>\<close>

text \<open>
  \<open>createClient\<close> returns the client object or throws, so \<open>!tmpClient\<close> is false and
  the 501 branch is taken exactly when \<open>qrLogin\<close> is not a function.
  \<open>tmpClient.disconnect?.()\<close> calls \<open>disconnect\<close> when the client has it.
\<close>

definition auth_qr_start ::
  "'w env \<Rightarrow> body \<Rightarrow> globals \<Rightarrow> 'w io \<Rightarrow> response \<times> globals \<times> 'w io" where
  "auth_qr_start e b g x =
     (if falsy_num (apiId b) \<or> falsy_str (apiHash b)
      then ((400, ErrorBody ''apiId & apiHash required''), g, x)
      else
        (case createClient e (apiId b) (apiHash b) [] x of
           (Inl err, x1) \<Rightarrow> ((500, ErrorBody err), g, x1)
         | (Inr tmpClient, x1) \<Rightarrow>
             if \<not> has_qrLogin tmpClient then
               (case (if has_disconnect tmpClient
                      then ext (disconnect e tmpClient) (Disconnect tmpClient) x1
                      else (Inr (), x1)) of
                  (Inl err, x2) \<Rightarrow> ((500, ErrorBody err), g, x2)
                | (Inr u, x2) \<Rightarrow>
                    ((501, ErrorBody ''QR login not supported by library version on server''),
                     g, x2))
             else
               (case ext (qrLogin e tmpClient) (QrLogin tmpClient) x1 of
                  (Inl err, x2) \<Rightarrow> ((500, ErrorBody err), g, x2)
                | (Inr qr, x2) \<Rightarrow>
                    ((200, OkQrData (''data:text/plain;base64,'' @ base64 (token qr))),
                     g\<lparr>qrWaiter := Some qr\<rparr>, x2))))"

text \<open>
  Everything after the race is inside the inner \<open>try\<close>, whose \<open>catch\<close> answers
  \<open>{loggedIn: false}\<close>; an assignment made before the exception stays.
\<close>

definition auth_qr_status ::
  "'w env \<Rightarrow> globals \<Rightarrow> 'w io \<Rightarrow> response \<times> globals \<times> 'w io" where
  "auth_qr_status e g x =
     (case qrWaiter g of
        None \<Rightarrow> ((200, LoggedIn False), g, x)
      | Some qr \<Rightarrow>
          (case ext (qr_wait e qr) (QrWait qr) x of
             (Rejected err, x1) \<Rightarrow> ((200, LoggedIn False), g, x1)
           | (TimedOut, x1) \<Rightarrow> ((200, LoggedIn False), g, x1)
           | (Confirmed, x1) \<Rightarrow>
               (case (case client g of
                        None \<Rightarrow> createClient e (storedApiId g) (storedApiHash g) [] x1
                      | Some c \<Rightarrow> (Inr c, x1)) of
                  (Inl err, x2) \<Rightarrow> ((200, LoggedIn False), g, x2)
                | (Inr c, x2) \<Rightarrow>
                    (case ext (session_save e c) (SessionSave c) x2 of
                       (Inl err, x3) \<Rightarrow> ((200, LoggedIn False), g\<lparr>client := Some c\<rparr>, x3)
                     | (Inr s, x3) \<Rightarrow>
                         ((200, LoggedIn True),
                          g\<lparr>client := Some c, sessionString := s\<rparr>, x3)))))"

definition auth_qr_cancel :: "globals \<Rightarrow> 'w io \<Rightarrow> response \<times> globals \<times> 'w io" where
  "auth_qr_cancel g x = ((200, OkBody), g\<lparr>qrWaiter := None\<rparr>, x)"

subsection \<open>\<open>GET /channels\<close>\<close>

definition channels ::
  "'w env \<Rightarrow> globals \<Rightarrow> 'w io \<Rightarrow> response \<times> globals \<times> 'w io" where
  "channels e g x =
     (case client g of
        None \<Rightarrow> ((400, ErrorBody ''not logged in''), g, x)
      | Some c \<Rightarrow>
          (case ext (getDialogs e c) (GetDialogs c) x of
             (Inl err, x1) \<Rightarrow> ((500, ErrorBody err), g, x1)
           | (Inr dialogs, x1) \<Rightarrow>
               ((200, ChannelList
                   (map (\<lambda>d. Channel (toString_int (dialog_id d)) (title d))
                      (filter isChannel dialogs))),
                g, x1)))"

subsection \<open>\<open>POST /send\<close>\<close>

text \<open>
  One turn of the loop: \<open>try { sendFile } catch { sendMessage } finally { try { unlinkSync }
  catch {} }\<close>. The result is that of \<open>sendFile\<close>, or of \<open>sendMessage\<close> when
  \<open>sendFile\<close> threw; what \<open>unlinkSync\<close> does is ignored.
\<close>

definition send_one ::
  "'w env \<Rightarrow> tgclient \<Rightarrow> string \<Rightarrow> upload \<Rightarrow> 'w io \<Rightarrow> (exn + unit) \<times> 'w io" where
  "send_one e c ch f x =
     (let filePath = path_resolve e (path f) in
      case (case ext (sendFile e c ch filePath (originalname f))
                   (SendFile c ch filePath (originalname f)) x of
              (Inl err, x1) \<Rightarrow>
                ext (sendMessage e c ch filePath (originalname f))
                  (SendMessage c ch filePath (originalname f)) x1
            | (Inr u, x1) \<Rightarrow> (Inr u, x1)) of
        (r, x2) \<Rightarrow>
          (case ext (unlinkSync e filePath) (UnlinkSync filePath) x2 of
             (ignored, x3) \<Rightarrow> (r, x3)))"

fun send_files ::
  "'w env \<Rightarrow> tgclient \<Rightarrow> string \<Rightarrow> upload list \<Rightarrow> 'w io \<Rightarrow> (exn + unit) \<times> 'w io" where
  "send_files e c ch [] x = (Inr (), x)"
| "send_files e c ch (f # fs) x =
     (case send_one e c ch f x of
        (Inl err, x1) \<Rightarrow> (Inl err, x1)
      | (Inr u, x1) \<Rightarrow> send_files e c ch fs x1)"

definition send ::
  "'w env \<Rightarrow> body \<Rightarrow> upload list option \<Rightarrow> globals \<Rightarrow> 'w io \<Rightarrow> response \<times> globals \<times> 'w io" where
  "send e b files g x =
     (case client g of
        None \<Rightarrow> ((400, ErrorBody ''not logged in''), g, x)
      | Some c \<Rightarrow>
          (case channelId b of
             None \<Rightarrow> ((400, ErrorBody ''channelId required''), g, x)
           | Some ch \<Rightarrow>
               if ch = [] then ((400, ErrorBody ''channelId required''), g, x)
               else
                 (case send_files e c ch (case files of None \<Rightarrow> [] | Some fs \<Rightarrow> fs) x of
                    (Inl err, x1) \<Rightarrow> ((500, ErrorBody err), g, x1)
                  | (Inr u, x1) \<Rightarrow> ((200, StatusSent), g, x1))))"

section \<open>Reading the call log and decimal strings\<close>

text \<open>The paths handed to \<open>fs.unlinkSync\<close>, in the order of the calls.\<close>

fun unlinked :: "call list \<Rightarrow> string list" where
  "unlinked [] = []"
| "unlinked (UnlinkSync p # cs) = p # unlinked cs"
| "unlinked (other # cs) = unlinked cs"

text \<open>The paths handed to \<open>client.sendFile\<close>, in the order of the calls.\<close>

fun offered :: "call list \<Rightarrow> string list" where
  "offered [] = []"
| "offered (SendFile c ch p n # cs) = p # offered cs"
| "offered (other # cs) = offered cs"

text \<open>
  What is asked of the file system for "the call of \<open>unlinkSync\<close> deletes the file":
  \<open>present w p\<close> says that a file is at path \<open>p\<close> in the world \<open>w\<close>. \<open>unlinkSync\<close>
  returns and the path is gone afterwards, and none of the three calls of the loop brings
  back a path that is gone.
\<close>

definition fs_unlink_ok :: "'w env \<Rightarrow> ('w \<Rightarrow> string \<Rightarrow> bool) \<Rightarrow> bool" where
  "fs_unlink_ok e present =
     ((\<forall>p w. \<exists>w'. unlinkSync e p w = (Inr (), w') \<and> \<not> present w' p)
    \<and> (\<forall>p q w. \<not> present w q \<longrightarrow> \<not> present (snd (unlinkSync e p w)) q)
    \<and> (\<forall>c ch p n q w. \<not> present w q \<longrightarrow> \<not> present (snd (sendFile e c ch p n w)) q)
    \<and> (\<forall>c ch p n q w. \<not> present w q \<longrightarrow> \<not> present (snd (sendMessage e c ch p n w)) q))"

text \<open>
  The number a decimal string stands for, read digit by digit; a leading \<open>-\<close> negates.
  This is the reader's side of \<open>toString_int\<close>, used to say that the rendering is the
  decimal representation of the identifier.
\<close>

definition digit_value :: "char \<Rightarrow> nat" where
  "digit_value ch = of_char ch - 48"

definition nat_of_decimal :: "string \<Rightarrow> nat" where
  "nat_of_decimal s = foldl (\<lambda>a ch. 10 * a + digit_value ch) 0 s"

definition int_of_decimal :: "string \<Rightarrow> int" where
  "int_of_decimal s =
     (case s of
        [] \<Rightarrow> 0
      | ch # r \<Rightarrow> if ch = CHR ''-'' then - int (nat_of_decimal r) else int (nat_of_decimal s))"

section \<open>Concrete worlds\<close>

text \<open>
  A library version whose clients have \<open>sendCodeRequest\<close>, \<open>signIn\<close>, \<open>qrLogin\<close> and
  \<open>disconnect\<close>, and a world (\<open>quiet_env\<close>) in which every call succeeds. The state of
  that world is a counter: a new client takes its \<open>cid\<close> from it. The other worlds differ
  from the quiet one in the operations named.
\<close>

definition lib_client :: "nat \<Rightarrow> tgclient" where
  "lib_client n =
     \<lparr>cid = n, has_sendCodeRequest = True, has_sendCode = False, has_signIn = True,
      has_qrLogin = True, has_disconnect = True\<rparr>"

definition qr0 :: qr_login where
  "qr0 = \<lparr>qr_id = 0, token = [77, 97, 110]\<rparr>"

definition quiet_env :: "nat env" where
  "quiet_env =
     \<lparr>new_TelegramClient = (\<lambda>s i h w. (Inr (lib_client w), Suc w)),
      connect = (\<lambda>c w. (Inr (), w)),
      disconnect = (\<lambda>c w. (Inr (), w)),
      sendCodeRequest = (\<lambda>c p w.
        (Inr \<lparr>phoneCodeHash = Some ''abc123'', phone_code_hash = None, underscore = None\<rparr>, w)),
      sendCode = (\<lambda>c p w.
        (Inr \<lparr>phoneCodeHash = None, phone_code_hash = Some ''abc123'', underscore = None\<rparr>, w)),
      signIn_object = (\<lambda>c p cd h w. (Inr (), w)),
      signIn_positional = (\<lambda>c p cd w. (Inr (), w)),
      session_save = (\<lambda>c w. (Inr ''1BQANOTEuMTA4'', w)),
      qrLogin = (\<lambda>c w. (Inr qr0, w)),
      qr_wait = (\<lambda>q w. (Confirmed, w)),
      getDialogs = (\<lambda>c w. (Inr [], w)),
      sendFile = (\<lambda>c ch f cap w. (Inr (), w)),
      sendMessage = (\<lambda>c ch f cap w. (Inr (), w)),
      unlinkSync = (\<lambda>p w. (Inr (), w)),
      path_resolve = (\<lambda>p. p)\<rparr>"

definition empty_body :: body where
  "empty_body = \<lparr>apiId = None, apiHash = None, phone = None, code = None, channelId = None\<rparr>"

definition start_body :: body where
  "start_body = empty_body\<lparr>apiId := Some 12345, apiHash := Some ''abc''\<rparr>"

definition verify_body :: "string \<Rightarrow> body" where
  "verify_body cd = empty_body\<lparr>phone := Some ''+10000000000'', code := Some cd\<rparr>"

definition fresh_io :: "nat io" where
  "fresh_io = \<lparr>world = 0, calls = []\<rparr>"

text \<open>
  The variables and the outside world after \<open>POST /auth/start\<close> with \<open>start_body\<close>, and
  after the \<open>POST /auth/sendCode\<close> for \<open>+10000000000\<close> that follows it.
\<close>

definition started_globals :: globals where
  "started_globals =
     initial_globals\<lparr>client := Some (lib_client 0), storedApiId := Some 12345,
       storedApiHash := Some ''abc''\<rparr>"

definition started_io :: "nat io" where
  "started_io =
     \<lparr>world = 1, calls = [NewTelegramClient [] 12345 (Some ''abc''), Connect (lib_client 0)]\<rparr>"

definition code_sent_globals :: globals where
  "code_sent_globals =
     started_globals\<lparr>phoneState := pm_set empty_phone_map ''+10000000000'' (JStr ''abc123'')\<rparr>"

definition code_sent_io :: "nat io" where
  "code_sent_io =
     \<lparr>world = 1, calls = calls started_io @ [SendCodeRequest (lib_client 0) ''+10000000000'']\<rparr>"

text \<open>The variables and the outside world after \<open>POST /auth/qr/start\<close> as the first request.\<close>

definition qr_pending_globals :: globals where
  "qr_pending_globals = initial_globals\<lparr>qrWaiter := Some qr0\<rparr>"

definition qr_pending_io :: "nat io" where
  "qr_pending_io =
     \<lparr>world = 1,
      calls = [NewTelegramClient [] 12345 (Some ''abc''), Connect (lib_client 0),
               QrLogin (lib_client 0)]\<rparr>"

text \<open>A world whose network is down: \<open>connect\<close> throws.\<close>

definition offline_env :: "nat env" where
  "offline_env = quiet_env\<lparr>connect := (\<lambda>c w. (Inl ''Error: connect ETIMEDOUT'', w))\<rparr>"

text \<open>A world whose code request answers with none of the three fields.\<close>

definition no_hash_env :: "nat env" where
  "no_hash_env = quiet_env\<lparr>sendCodeRequest := (\<lambda>c p w.
      (Inr \<lparr>phoneCodeHash = None, phone_code_hash = None, underscore = None\<rparr>, w))\<rparr>"

text \<open>
  A world that checks the code: the object-shaped sign-in succeeds for the hash \<open>abc123\<close>
  with the code \<open>12345\<close> only, and the positional sign-in is not supported.
\<close>

definition strict_env :: "nat env" where
  "strict_env = quiet_env
     \<lparr>signIn_object := (\<lambda>c p cd h w.
        (if h = JStr ''abc123'' \<and> cd = ''12345'' then Inr ()
         else Inl ''RPCError: 400: PHONE_CODE_INVALID'', w)),
      signIn_positional := (\<lambda>c p cd w. (Inl ''Error: signIn expects an object'', w))\<rparr>"

text \<open>A world whose \<open>session.save()\<close> gives the empty string.\<close>

definition blank_session_env :: "nat env" where
  "blank_session_env = quiet_env\<lparr>session_save := (\<lambda>c w. (Inr [], w))\<rparr>"

text \<open>
  A library version without \<open>qrLogin\<close>, and the same with a \<open>disconnect\<close> that throws.
\<close>

definition no_qr_client :: "nat \<Rightarrow> tgclient" where
  "no_qr_client n = (lib_client n)\<lparr>has_qrLogin := False\<rparr>"

definition no_qr_env :: "nat env" where
  "no_qr_env = quiet_env\<lparr>new_TelegramClient := (\<lambda>s i h w. (Inr (no_qr_client w), Suc w))\<rparr>"

definition stuck_disconnect_env :: "nat env" where
  "stuck_disconnect_env =
     no_qr_env\<lparr>disconnect := (\<lambda>c w. (Inl ''Error: Cannot send requests while disconnected'', w))\<rparr>"

text \<open>A world whose client constructor refuses a missing \<open>apiHash\<close>.\<close>

definition checked_ctor_env :: "nat env" where
  "checked_ctor_env =
     quiet_env\<lparr>new_TelegramClient := (\<lambda>s i h w.
       (case h of
          None \<Rightarrow> (Inl ''Error: Your API ID or Hash cannot be empty or undefined'', w)
        | Some a \<Rightarrow> (Inr (lib_client w), Suc w)))\<rparr>"

text \<open>
  A world that is the list of the files on disk. \<open>unlinkSync\<close> removes the path;
  \<open>sendFile\<close> refuses two files and \<open>sendMessage\<close> one of them. In the second world
  \<open>unlinkSync\<close> is not permitted to remove one file and throws.
\<close>

definition on_disk :: "string list \<Rightarrow> string \<Rightarrow> bool" where
  "on_disk w p = (p \<in> set w)"

definition disk_env :: "string list env" where
  "disk_env =
     \<lparr>new_TelegramClient = (\<lambda>s i h w. (Inr (lib_client 0), w)),
      connect = (\<lambda>c w. (Inr (), w)),
      disconnect = (\<lambda>c w. (Inr (), w)),
      sendCodeRequest = (\<lambda>c p w.
        (Inr \<lparr>phoneCodeHash = Some ''abc123'', phone_code_hash = None, underscore = None\<rparr>, w)),
      sendCode = (\<lambda>c p w.
        (Inr \<lparr>phoneCodeHash = None, phone_code_hash = Some ''abc123'', underscore = None\<rparr>, w)),
      signIn_object = (\<lambda>c p cd h w. (Inr (), w)),
      signIn_positional = (\<lambda>c p cd w. (Inr (), w)),
      session_save = (\<lambda>c w. (Inr ''1BQANOTEuMTA4'', w)),
      qrLogin = (\<lambda>c w. (Inr qr0, w)),
      qr_wait = (\<lambda>q w. (Confirmed, w)),
      getDialogs = (\<lambda>c w. (Inr [], w)),
      sendFile = (\<lambda>c ch f cap w.
        (if f = ''/tmp/tg_uploads/big'' \<or> f = ''/tmp/tg_uploads/bad''
         then Inl ''Error: FILE_PARTS_INVALID'' else Inr (), w)),
      sendMessage = (\<lambda>c ch f cap w.
        (if f = ''/tmp/tg_uploads/bad'' then Inl ''Error: MEDIA_EMPTY'' else Inr (), w)),
      unlinkSync = (\<lambda>p w. (Inr (), removeAll p w)),
      path_resolve = (\<lambda>p. p)\<rparr>"

definition locked_disk_env :: "string list env" where
  "locked_disk_env = disk_env
     \<lparr>unlinkSync := (\<lambda>p w.
        if p = ''/tmp/tg_uploads/big''
        then (Inl ''Error: EPERM: operation not permitted, unlink'', w)
        else (Inr (), removeAll p w))\<rparr>"

definition upload_of :: "string \<Rightarrow> upload" where
  "upload_of n = \<lparr>path = ''/tmp/tg_uploads/'' @ n, originalname = n @ ''.jpg''\<rparr>"

definition staged_io :: "string list io" where
  "staged_io =
     \<lparr>world = [''/tmp/tg_uploads/ok'', ''/tmp/tg_uploads/big'', ''/tmp/tg_uploads/bad'',
               ''/tmp/tg_uploads/late''],
      calls = []\<rparr>"

definition send_body :: body where
  "send_body = empty_body\<lparr>channelId := Some ''-1001234567890''\<rparr>"

text \<open>
  A world in which each client has its own session: \<open>session.save()\<close> of the client with
  \<open>cid\<close> 1 gives one string and that of any other client another.
\<close>

definition two_sessions_env :: "nat env" where
  "two_sessions_env = quiet_env
     \<lparr>session_save := (\<lambda>c w.
        (Inr (if cid c = 1 then ''1-session-of-client-1'' else ''1-session-of-client-0''), w))\<rparr>"

text \<open>
  The variables and the outside world after \<open>POST /auth/start\<close> and then
  \<open>POST /auth/qr/start\<close>, both with \<open>start_body\<close>: the main client is client 0, and the QR
  login runs on the temporary client 1.
\<close>

definition started_qr_globals :: globals where
  "started_qr_globals = started_globals\<lparr>qrWaiter := Some qr0\<rparr>"

definition started_qr_io :: "nat io" where
  "started_qr_io =
     \<lparr>world = 2,
      calls = calls started_io
        @ [NewTelegramClient [] 12345 (Some ''abc''), Connect (lib_client 1),
           QrLogin (lib_client 1)]\<rparr>"

text \<open>A world with four dialogs, two of them channels.\<close>

definition dialogs_env :: "nat env" where
  "dialogs_env = quiet_env
     \<lparr>getDialogs := (\<lambda>c w.
        (Inr [\<lparr>isChannel = False, dialog_id = 777000, title = ''Telegram''\<rparr>,
              \<lparr>isChannel = True, dialog_id = - 1001234567890, title = ''News''\<rparr>,
              \<lparr>isChannel = False, dialog_id = - 4567, title = ''Family''\<rparr>,
              \<lparr>isChannel = True, dialog_id = 9007199254740993, title = ''Big''\<rparr>], w))\<rparr>"

section \<open>Properties\<close>

subsection \<open>The concrete states are reached by the handlers\<close>

lemma started_is_reached:
  "auth_start quiet_env start_body initial_globals fresh_io
   = ((200, OkBody), started_globals, started_io)"
  by (simp add: auth_start_def createClient_def ext_def quiet_env_def start_body_def
      empty_body_def fresh_io_def started_globals_def started_io_def initial_globals_def
      falsy_num_def falsy_str_def Number_def)

lemma code_sent_is_reached:
  "auth_sendCode quiet_env (empty_body\<lparr>phone := Some ''+10000000000''\<rparr>)
     started_globals started_io
   = ((200, OkBody), code_sent_globals, code_sent_io)"
  by (simp add: auth_sendCode_def request_code_def ext_def quiet_env_def empty_body_def
      started_globals_def started_io_def initial_globals_def lib_client_def
      code_sent_globals_def code_sent_io_def pick_phone_code_hash_def)

lemma qr_pending_is_reached:
  "auth_qr_start checked_ctor_env start_body initial_globals fresh_io
   = ((200, OkQrData ''data:text/plain;base64,TWFu''), qr_pending_globals, qr_pending_io)"
  by (simp add: auth_qr_start_def createClient_def ext_def checked_ctor_env_def
      quiet_env_def lib_client_def start_body_def empty_body_def qr0_def
      qr_pending_globals_def qr_pending_io_def
      fresh_io_def falsy_num_def falsy_str_def Number_def base64_char_def base64_alphabet_def)

subsection \<open>The phone table\<close>

lemma pm_get_after_set:
  "k \<noteq> ''__proto__'' \<Longrightarrow> pm_get (pm_set pm k v) k = v"
  by (simp add: pm_get_def pm_set_def)

lemma pm_get_after_set_null:
  "\<not> truthy (pm_get (pm_set pm k JNull) k)"
  by (auto simp: pm_get_def pm_set_def split: option.splits)

lemma pm_get_other:
  "k \<noteq> ''__proto__'' \<Longrightarrow> k' \<noteq> k \<Longrightarrow> pm_get (pm_set pm k v) k' = pm_get pm k'"
  by (auto simp: pm_get_def pm_set_def split: option.splits)

lemma code_sent_hash:
  "pm_get (phoneState code_sent_globals) ''+10000000000'' = JStr ''abc123''"
  by (simp add: code_sent_globals_def pm_get_def pm_set_def empty_phone_map_def)

subsection \<open>\<open>sendCode\<close>: the verification hash\<close>

text \<open>
  C1, as stated, fails: when the result of the code request has none of the three fields,
  \<open>sendCode\<close> does not fail. It answers \<open>{ok: true}\<close> with status 200.
\<close>

theorem sendCode_without_hash_answers_ok:
  "sendCodeRequest no_hash_env (lib_client 0) ''+10000000000'' (world started_io)
     = (Inr \<lparr>phoneCodeHash = None, phone_code_hash = None, underscore = None\<rparr>, 1)
   \<and> fst (auth_sendCode no_hash_env (empty_body\<lparr>phone := Some ''+10000000000''\<rparr>)
          started_globals started_io) = (200, OkBody)"
  by (simp add: auth_sendCode_def request_code_def ext_def no_hash_env_def quiet_env_def
      empty_body_def started_globals_def started_io_def initial_globals_def lib_client_def)

text \<open>
  C1, amended. With a client and a non-empty phone, whenever the code request returns a
  result, \<open>sendCode\<close> answers 200 \<open>{ok: true}\<close>. If one of \<open>phoneCodeHash\<close>,
  \<open>phone_code_hash\<close>, \<open>_\<close> is a non-empty string, the first such in this order is what a
  later lookup of the phone finds, whatever was stored for the phone before (for every phone
  but \<open>__proto__\<close>). If none is, what a later lookup of the phone finds is falsy, so the
  entry is of no use to \<open>verify\<close>.
\<close>

theorem sendCode_stores_first_truthy_alias:
  assumes "client g = Some c" and "phone b = Some p" and "p \<noteq> []"
    and "request_code e c p x = (Inr res, x1)"
  shows "case auth_sendCode e b g x of
           (r, g', x') \<Rightarrow>
             r = (200, OkBody) \<and> x' = x1
           \<and> (\<forall>h. h \<noteq> [] \<longrightarrow> p \<noteq> ''__proto__'' \<longrightarrow> phoneCodeHash res = Some h
                  \<longrightarrow> pm_get (phoneState g') p = JStr h)
           \<and> (\<forall>h. h \<noteq> [] \<longrightarrow> p \<noteq> ''__proto__'' \<longrightarrow> falsy_str (phoneCodeHash res)
                  \<longrightarrow> phone_code_hash res = Some h
                  \<longrightarrow> pm_get (phoneState g') p = JStr h)
           \<and> (\<forall>h. h \<noteq> [] \<longrightarrow> p \<noteq> ''__proto__'' \<longrightarrow> falsy_str (phoneCodeHash res)
                  \<longrightarrow> falsy_str (phone_code_hash res) \<longrightarrow> underscore res = Some h
                  \<longrightarrow> pm_get (phoneState g') p = JStr h)
           \<and> (falsy_str (phoneCodeHash res) \<longrightarrow> falsy_str (phone_code_hash res)
                  \<longrightarrow> falsy_str (underscore res)
                  \<longrightarrow> \<not> truthy (pm_get (phoneState g') p))"
  using assms
  by (auto simp: auth_sendCode_def pick_phone_code_hash_def falsy_str_def
      pm_get_after_set pm_get_after_set_null split: option.splits)

theorem sendCode_stores_first_truthy_alias_witness:
  "pm_get (phoneState (started_globals\<lparr>phoneState :=
        pm_set empty_phone_map ''+10000000000'' (JStr ''stale'')\<rparr>)) ''+10000000000''
     = JStr ''stale''
   \<and> (case auth_sendCode quiet_env (empty_body\<lparr>phone := Some ''+10000000000''\<rparr>)
            (started_globals\<lparr>phoneState :=
               pm_set empty_phone_map ''+10000000000'' (JStr ''stale'')\<rparr>) started_io of
         (r, g', x') \<Rightarrow>
           r = (200, OkBody) \<and> pm_get (phoneState g') ''+10000000000'' = JStr ''abc123'')"
proof -
  let ?g = "started_globals\<lparr>phoneState :=
              pm_set empty_phone_map ''+10000000000'' (JStr ''stale'')\<rparr>"
  let ?b = "empty_body\<lparr>phone := Some ''+10000000000''\<rparr>"
  have c: "client ?g = Some (lib_client 0)"
    by (simp add: started_globals_def)
  have p: "phone ?b = Some ''+10000000000''"
    by simp
  have r: "request_code quiet_env (lib_client 0) ''+10000000000'' started_io
             = (Inr \<lparr>phoneCodeHash = Some ''abc123'', phone_code_hash = None,
                     underscore = None\<rparr>, code_sent_io)"
    by (simp add: request_code_def ext_def quiet_env_def lib_client_def started_io_def
        code_sent_io_def)
  have old: "pm_get (phoneState ?g) ''+10000000000'' = JStr ''stale''"
    by (simp add: pm_get_after_set)
  show ?thesis
    using old sendCode_stores_first_truthy_alias [OF c p _ r]
    by (simp split: prod.splits)
qed

subsection \<open>\<open>verify\<close>: the two shapes of \<open>signIn\<close>\<close>

text \<open>
  C4, as stated, fails: with a client whose \<open>signIn\<close> is not a function, a \<open>verify\<close>
  that passes all its preconditions attempts no sign-in at all; the \<open>else\<close> branch throws
  a \<open>TypeError\<close>, the answer is 500 and the call log is unchanged.
\<close>

theorem verify_without_signIn_function:
  "client (code_sent_globals\<lparr>client := Some ((lib_client 0)\<lparr>has_signIn := False\<rparr>)\<rparr>)
     = Some ((lib_client 0)\<lparr>has_signIn := False\<rparr>)
   \<and> truthy (pm_get (phoneState
        (code_sent_globals\<lparr>client := Some ((lib_client 0)\<lparr>has_signIn := False\<rparr>)\<rparr>))
        ''+10000000000'')
   \<and> auth_verify quiet_env (verify_body ''12345'')
        (code_sent_globals\<lparr>client := Some ((lib_client 0)\<lparr>has_signIn := False\<rparr>)\<rparr>)
        code_sent_io
      = ((500, ErrorBody ''TypeError: client.signIn is not a function''),
         code_sent_globals\<lparr>client := Some ((lib_client 0)\<lparr>has_signIn := False\<rparr>)\<rparr>,
         code_sent_io)"
  by (simp add: Let_def auth_verify_def sign_in_def verify_body_def empty_body_def
      code_sent_globals_def started_globals_def initial_globals_def lib_client_def
      pm_get_def pm_set_def empty_phone_map_def)

text \<open>
  C4, amended. Take a \<open>verify\<close> call that passes its preconditions (a client; a
  non-empty phone and code; a truthy entry \<open>h\<close> for the phone). When the client's
  \<open>signIn\<close> is a function, the first external call is the object-shaped sign-in with the
  phone, the code and \<open>h\<close>. If it returns, no positional sign-in is made. If it throws,
  the positional sign-in with the phone and the code is made exactly once, in the world the
  first attempt left. If that throws as well, its exception (not the first one) is the text
  of the 500 answer, the variables are unchanged and nothing further is called. When
  \<open>signIn\<close> is not a function, nothing is called and the answer is 500 with the
  \<open>TypeError\<close>.
\<close>

theorem verify_tries_object_then_positional:
  assumes "client g = Some c"
    and "phone b = Some p" and "p \<noteq> []" and "code b = Some cd" and "cd \<noteq> []"
    and "pm_get (phoneState g) p = h" and "truthy h"
  shows "if has_signIn c then
           (case signIn_object e c p cd h (world x) of
              (Inr ok, w1) \<Rightarrow>
                calls (snd (snd (auth_verify e b g x)))
                  = calls x @ [SignInObject c p cd h, SessionSave c]
            | (Inl err1, w1) \<Rightarrow>
                (case signIn_positional e c p cd w1 of
                   (Inr ok, w2) \<Rightarrow>
                     calls (snd (snd (auth_verify e b g x)))
                       = calls x
                         @ [SignInObject c p cd h, SignInPositional c p cd, SessionSave c]
                 | (Inl err2, w2) \<Rightarrow>
                     auth_verify e b g x
                       = ((500, ErrorBody err2), g,
                          \<lparr>world = w2,
                           calls = calls x
                             @ [SignInObject c p cd h, SignInPositional c p cd]\<rparr>)))
         else
           auth_verify e b g x
             = ((500, ErrorBody ''TypeError: client.signIn is not a function''), g, x)"
  using assms
  by (auto simp: Let_def auth_verify_def sign_in_def ext_def split: prod.splits sum.splits)

theorem verify_tries_object_then_positional_witness:
  "auth_verify strict_env (verify_body ''00000'') code_sent_globals code_sent_io
   = ((500, ErrorBody ''Error: signIn expects an object''), code_sent_globals,
      \<lparr>world = 1,
       calls = calls code_sent_io
         @ [SignInObject (lib_client 0) ''+10000000000'' ''00000'' (JStr ''abc123''),
            SignInPositional (lib_client 0) ''+10000000000'' ''00000'']\<rparr>)"
proof -
  have c: "client code_sent_globals = Some (lib_client 0)"
    by (simp add: code_sent_globals_def started_globals_def)
  have p: "phone (verify_body ''00000'') = Some ''+10000000000''"
    and cd: "code (verify_body ''00000'') = Some ''00000''"
    by (simp_all add: verify_body_def)
  have h: "truthy (JStr ''abc123'')"
    by simp
  show ?thesis
    using verify_tries_object_then_positional [OF c p _ cd _ code_sent_hash h,
        where e = strict_env and x = code_sent_io]
    by (simp add: strict_env_def quiet_env_def code_sent_io_def lib_client_def)
qed

subsection \<open>\<open>verify\<close>: the session token\<close>

text \<open>
  C5, as stated, fails: nothing in \<open>verify\<close> makes the saved session non-empty. When
  \<open>session.save()\<close> returns the empty string after a sign-in that did not throw, the
  answer is 200 with \<open>session: ''\<close> and the stored token is empty.
\<close>

theorem verify_blank_session:
  "auth_verify blank_session_env (verify_body ''12345'') code_sent_globals code_sent_io
   = ((200, OkSession []), code_sent_globals\<lparr>sessionString := []\<rparr>,
      \<lparr>world = 1,
       calls = calls code_sent_io
         @ [SignInObject (lib_client 0) ''+10000000000'' ''12345'' (JStr ''abc123''),
            SessionSave (lib_client 0)]\<rparr>)"
  by (simp add: Let_def auth_verify_def sign_in_def ext_def verify_body_def empty_body_def
      blank_session_env_def quiet_env_def code_sent_globals_def code_sent_io_def
      started_globals_def initial_globals_def lib_client_def
      pm_get_def pm_set_def empty_phone_map_def)

text \<open>
  C5, amended. Every \<open>verify\<close> call answers 200, 400 or 500. When the answer is not 200
  (a missing client, phone, code or entry for the phone, a sign-in that throws in both
  shapes or cannot be called, a \<open>session.save()\<close> that throws), all variables, the
  session token among them, are unchanged and the body is an error. When the answer is 200,
  the only variable that changes is the session token: it is the string that
  \<open>session.save()\<close> of the client returned, and the body carries the same string.
\<close>

theorem verify_session_token:
  "case auth_verify e b g x of
     ((st, bd), g', x') \<Rightarrow>
       if st = 200
       then (\<exists>c s w w'. client g = Some c \<and> session_save e c w = (Inr s, w')
               \<and> bd = OkSession s \<and> g' = g\<lparr>sessionString := s\<rparr>)
       else g' = g \<and> (\<exists>msg. bd = ErrorBody msg) \<and> (st = 400 \<or> st = 500)"
  by (auto simp: Let_def auth_verify_def sign_in_def ext_def
      split: prod.splits sum.splits option.splits)

theorem verify_session_token_witness:
  "(case auth_verify strict_env (verify_body ''00000'') code_sent_globals code_sent_io of
      ((st, bd), g', x') \<Rightarrow> st = 500 \<and> sessionString g' = sessionString code_sent_globals)
   \<and> (case auth_verify strict_env (verify_body ''12345'') code_sent_globals code_sent_io of
      ((st, bd), g', x') \<Rightarrow>
        st = 200 \<and> bd = OkSession ''1BQANOTEuMTA4'' \<and> sessionString g' = ''1BQANOTEuMTA4''
        \<and> sessionString code_sent_globals = [])"
proof -
  have wrong: "fst (fst (auth_verify strict_env (verify_body ''00000'') code_sent_globals
                 code_sent_io)) = 500"
    by (simp add: Let_def auth_verify_def sign_in_def ext_def verify_body_def empty_body_def
        strict_env_def quiet_env_def code_sent_globals_def started_globals_def
        initial_globals_def lib_client_def pm_get_def pm_set_def empty_phone_map_def)
  have right: "fst (auth_verify strict_env (verify_body ''12345'') code_sent_globals
                 code_sent_io) = (200, OkSession ''1BQANOTEuMTA4'')"
    by (simp add: Let_def auth_verify_def sign_in_def ext_def verify_body_def empty_body_def
        strict_env_def quiet_env_def code_sent_globals_def started_globals_def
        initial_globals_def lib_client_def pm_get_def pm_set_def empty_phone_map_def)
  have blank: "sessionString code_sent_globals = []"
    by (simp add: code_sent_globals_def started_globals_def initial_globals_def)
  show ?thesis
    using wrong right blank
      verify_session_token [where e = strict_env and b = "verify_body ''00000''"
        and g = code_sent_globals and x = code_sent_io]
      verify_session_token [where e = strict_env and b = "verify_body ''12345''"
        and g = code_sent_globals and x = code_sent_io]
    by (auto split: prod.splits if_splits)
qed

subsection \<open>\<open>verify\<close> without a prior \<open>sendCode\<close>\<close>

text \<open>
  For a phone that has no own entry in \<open>phoneState\<close> and is not the name of a member of
  \<open>Object.prototype\<close>, \<open>verify\<close> answers 400 and calls nothing.
\<close>

lemma verify_unknown_phone:
  assumes "client g = Some c" and "phone b = Some p"
    and "own (phoneState g) p = None"
    and "p \<notin> set object_prototype_keys"
  shows "\<exists>msg. auth_verify e b g x = ((400, ErrorBody msg), g, x)"
  using assms
  by (auto simp: Let_def auth_verify_def pm_get_def split: option.splits)

text \<open>
  C7 does not hold of the code for the phone \<open>constructor\<close>: no \<open>sendCode\<close> has stored
  anything (the table has no own entry), but \<open>phoneState['constructor']\<close> is the inherited
  \<open>Object\<close> function, which is truthy. The guard lets the request through and both
  shapes of \<open>signIn\<close> are called; the answer is 500, not 400.
\<close>

theorem verify_inherited_key_signs_in:
  "own (phoneState started_globals) ''constructor'' = None
   \<and> auth_verify strict_env (empty_body\<lparr>phone := Some ''constructor'', code := Some ''12345''\<rparr>)
       started_globals started_io
     = ((500, ErrorBody ''Error: signIn expects an object''), started_globals,
        \<lparr>world = 1,
         calls = calls started_io
           @ [SignInObject (lib_client 0) ''constructor'' ''12345'' (JInherited ''constructor''),
              SignInPositional (lib_client 0) ''constructor'' ''12345'']\<rparr>)"
  by (simp add: Let_def auth_verify_def sign_in_def ext_def strict_env_def quiet_env_def
      empty_body_def started_globals_def started_io_def initial_globals_def lib_client_def
      pm_get_def empty_phone_map_def object_prototype_keys_def)

subsection \<open>\<open>qr/start\<close>\<close>

lemma base64_rfc4648:
  "base64 [] = []"
  "base64 [102] = ''Zg==''"
  "base64 [102, 111] = ''Zm8=''"
  "base64 [102, 111, 111] = ''Zm9v''"
  "base64 [102, 111, 111, 98] = ''Zm9vYg==''"
  "base64 [102, 111, 111, 98, 97] = ''Zm9vYmE=''"
  "base64 [102, 111, 111, 98, 97, 114] = ''Zm9vYmFy''"
  by (simp_all add: base64_char_def base64_alphabet_def)

text \<open>
  C8, as stated, fails: the new client has no \<open>qrLogin\<close>, but its \<open>disconnect()\<close>, which
  the handler awaits before answering, throws. The answer is the generic 500, not 501.
\<close>

theorem qr_start_disconnect_throws:
  "has_qrLogin (no_qr_client 0) = False
   \<and> auth_qr_start stuck_disconnect_env start_body initial_globals fresh_io
     = ((500, ErrorBody ''Error: Cannot send requests while disconnected''), initial_globals,
        \<lparr>world = 1,
         calls = [NewTelegramClient [] 12345 (Some ''abc''), Connect (no_qr_client 0),
                  Disconnect (no_qr_client 0)]\<rparr>)"
  by (simp add: auth_qr_start_def createClient_def ext_def stuck_disconnect_env_def
      no_qr_env_def quiet_env_def no_qr_client_def lib_client_def start_body_def empty_body_def
      fresh_io_def falsy_num_def falsy_str_def Number_def)

text \<open>
  C8, amended. For a \<open>qr/start\<close> request with a truthy \<open>apiId\<close> and \<open>apiHash\<close> whose
  temporary client was created: if the client has no \<open>qrLogin\<close>, the answer is 501 when
  the client has no \<open>disconnect\<close> or its \<open>disconnect()\<close> returns, and 500 with the
  exception's text when \<open>disconnect()\<close> throws; the variables are unchanged either way. If
  the client has \<open>qrLogin\<close> and the call returns, the answer is 200 with \<open>qrData\<close> the
  string \<open>data:text/plain;base64,\<close> followed by the base64 text of the token, and the
  returned object becomes the pending attempt; if the call throws, the answer is 500.
\<close>

theorem qr_start_answers:
  assumes "apiId b = Some n" and "n \<noteq> 0" and "apiHash b = Some h" and "h \<noteq> []"
    and "createClient e (apiId b) (apiHash b) [] x = (Inr tmp, x1)"
  shows "if has_qrLogin tmp then
           (case qrLogin e tmp (world x1) of
              (Inr qr, w2) \<Rightarrow>
                auth_qr_start e b g x
                  = ((200, OkQrData (''data:text/plain;base64,'' @ base64 (token qr))),
                     g\<lparr>qrWaiter := Some qr\<rparr>,
                     \<lparr>world = w2, calls = calls x1 @ [QrLogin tmp]\<rparr>)
            | (Inl err, w2) \<Rightarrow>
                auth_qr_start e b g x
                  = ((500, ErrorBody err), g, \<lparr>world = w2, calls = calls x1 @ [QrLogin tmp]\<rparr>))
         else if has_disconnect tmp then
           (case disconnect e tmp (world x1) of
              (Inr ok, w2) \<Rightarrow>
                auth_qr_start e b g x
                  = ((501, ErrorBody ''QR login not supported by library version on server''), g,
                     \<lparr>world = w2, calls = calls x1 @ [Disconnect tmp]\<rparr>)
            | (Inl err, w2) \<Rightarrow>
                auth_qr_start e b g x
                  = ((500, ErrorBody err), g, \<lparr>world = w2, calls = calls x1 @ [Disconnect tmp]\<rparr>))
         else
           auth_qr_start e b g x
             = ((501, ErrorBody ''QR login not supported by library version on server''), g, x1)"
  using assms
  by (auto simp: auth_qr_start_def ext_def falsy_num_def falsy_str_def
      split: prod.splits sum.splits)

theorem qr_start_answers_witness:
  "auth_qr_start quiet_env start_body initial_globals fresh_io
     = ((200, OkQrData ''data:text/plain;base64,TWFu''), initial_globals\<lparr>qrWaiter := Some qr0\<rparr>,
        qr_pending_io)
   \<and> auth_qr_start no_qr_env start_body initial_globals fresh_io
     = ((501, ErrorBody ''QR login not supported by library version on server''),
        initial_globals,
        \<lparr>world = 1,
         calls = [NewTelegramClient [] 12345 (Some ''abc''), Connect (no_qr_client 0),
                  Disconnect (no_qr_client 0)]\<rparr>)"
proof -
  have i: "apiId start_body = Some 12345" and h: "apiHash start_body = Some ''abc''"
    by (simp_all add: start_body_def empty_body_def)
  have q: "createClient quiet_env (apiId start_body) (apiHash start_body) [] fresh_io
             = (Inr (lib_client 0),
                \<lparr>world = 1,
                 calls = [NewTelegramClient [] 12345 (Some ''abc''), Connect (lib_client 0)]\<rparr>)"
    by (simp add: createClient_def ext_def quiet_env_def start_body_def empty_body_def
        fresh_io_def Number_def)
  have n: "createClient no_qr_env (apiId start_body) (apiHash start_body) [] fresh_io
             = (Inr (no_qr_client 0),
                \<lparr>world = 1,
                 calls = [NewTelegramClient [] 12345 (Some ''abc''), Connect (no_qr_client 0)]\<rparr>)"
    by (simp add: createClient_def ext_def no_qr_env_def quiet_env_def start_body_def
        empty_body_def fresh_io_def Number_def)
  show ?thesis
    using qr_start_answers [OF i _ h _ q, where g = initial_globals]
      qr_start_answers [OF i _ h _ n, where g = initial_globals]
    by (simp add: quiet_env_def no_qr_env_def no_qr_client_def lib_client_def qr0_def
        qr_pending_io_def base64_char_def base64_alphabet_def)
qed

subsection \<open>\<open>qr/status\<close>\<close>

text \<open>
  C2 does not hold of the code. After \<open>start\<close> and \<open>qr/start\<close> the QR login runs on the
  temporary client (client 1) that \<open>qr/start\<close> created. When the wait confirms,
  \<open>qr/status\<close> answers \<open>{loggedIn: true}\<close>, but the session it stores is the one saved
  from the main client (client 0): the only call after the wait is \<open>session.save()\<close> of
  client 0, and the session of client 1, which the confirmed QR login produced, is
  neither read nor stored.
\<close>

theorem qr_status_stores_main_client_session:
  "auth_qr_start two_sessions_env start_body started_globals started_io
     = ((200, OkQrData ''data:text/plain;base64,TWFu''), started_qr_globals, started_qr_io)
   \<and> qr_wait two_sessions_env qr0 (world started_qr_io) = (Confirmed, 2)
   \<and> session_save two_sessions_env (lib_client 1) 2 = (Inr ''1-session-of-client-1'', 2)
   \<and> auth_qr_status two_sessions_env started_qr_globals started_qr_io
     = ((200, LoggedIn True),
        started_qr_globals\<lparr>sessionString := ''1-session-of-client-0''\<rparr>,
        \<lparr>world = 2,
         calls = calls started_qr_io @ [QrWait qr0, SessionSave (lib_client 0)]\<rparr>)"
  by (simp add: auth_qr_start_def auth_qr_status_def createClient_def ext_def
      two_sessions_env_def quiet_env_def lib_client_def qr0_def start_body_def empty_body_def
      started_globals_def started_io_def started_qr_globals_def started_qr_io_def
      initial_globals_def falsy_num_def falsy_str_def Number_def
      base64_char_def base64_alphabet_def)

text \<open>
  The same for every world: the session string stored by a \<open>{loggedIn: true}\<close> answer is
  the one saved from the main client (the variable \<open>client\<close>), and that save is the last
  call of the request.
\<close>

lemma qr_status_saves_main_client_session:
  assumes "qrWaiter g = Some qr"
    and "fst (auth_qr_status e g x) = (200, LoggedIn True)"
  shows "\<exists>c w w'. client (fst (snd (auth_qr_status e g x))) = Some c
           \<and> session_save e c w = (Inr (sessionString (fst (snd (auth_qr_status e g x)))), w')
           \<and> last (calls (snd (snd (auth_qr_status e g x)))) = SessionSave c"
  using assms
  by (auto simp: auth_qr_status_def ext_def
      split: prod.splits sum.splits option.splits wait_outcome.splits)

text \<open>
  A second way in which a confirmed poll differs from the claim: \<open>qr/start\<close> was the first
  request, so no credentials are remembered. The wait confirms, there is no main client,
  \<open>createClient(null, null, '')\<close> throws, and the answer is \<open>{loggedIn: false}\<close>.
\<close>

lemma qr_status_confirmed_but_not_logged_in:
  "qrWaiter qr_pending_globals = Some qr0
   \<and> qr_wait checked_ctor_env qr0 (world qr_pending_io) = (Confirmed, 1)
   \<and> auth_qr_status checked_ctor_env qr_pending_globals qr_pending_io
     = ((200, LoggedIn False), qr_pending_globals,
        \<lparr>world = 1,
         calls = calls qr_pending_io @ [QrWait qr0, NewTelegramClient [] 0 None]\<rparr>)"
  by (simp add: auth_qr_status_def createClient_def ext_def checked_ctor_env_def
      quiet_env_def qr_pending_globals_def qr_pending_io_def initial_globals_def Number_def)

text \<open>
  What \<open>qr/status\<close> does while an attempt is pending, by the outcome of its calls. The
  attempt is still pending afterwards in every case.
\<close>

lemma qr_status_poll:
  assumes "qrWaiter g = Some qr"
  shows "case auth_qr_status e g x of
           (r, g', x') \<Rightarrow>
             qrWaiter g' = Some qr
           \<and> (case qr_wait e qr (world x) of
                 (Confirmed, w1) \<Rightarrow>
                   (case (case client g of
                            None \<Rightarrow>
                              createClient e (storedApiId g) (storedApiHash g) []
                                \<lparr>world = w1, calls = calls x @ [QrWait qr]\<rparr>
                          | Some c \<Rightarrow> (Inr c, \<lparr>world = w1, calls = calls x @ [QrWait qr]\<rparr>)) of
                      (Inr c, x2) \<Rightarrow>
                        client g' = Some c
                      \<and> (case session_save e c (world x2) of
                            (Inr s, w3) \<Rightarrow> r = (200, LoggedIn True) \<and> sessionString g' = s
                          | (Inl err, w3) \<Rightarrow>
                              r = (200, LoggedIn False) \<and> sessionString g' = sessionString g)
                    | (Inl err, x2) \<Rightarrow> r = (200, LoggedIn False) \<and> g' = g)
               | (Rejected err, w1) \<Rightarrow>
                   r = (200, LoggedIn False) \<and> g' = g
                 \<and> x' = \<lparr>world = w1, calls = calls x @ [QrWait qr]\<rparr>
               | (TimedOut, w1) \<Rightarrow>
                   r = (200, LoggedIn False) \<and> g' = g
                 \<and> x' = \<lparr>world = w1, calls = calls x @ [QrWait qr]\<rparr>)"
  using assms
  by (auto simp: auth_qr_status_def ext_def
      split: prod.splits sum.splits option.splits wait_outcome.splits)

subsection \<open>\<open>send\<close>: the loop over the files\<close>

lemma unlinked_append: "unlinked (cs @ ds) = unlinked cs @ unlinked ds"
  by (induction cs rule: unlinked.induct) simp_all

lemma offered_append: "offered (cs @ ds) = offered cs @ offered ds"
  by (induction cs rule: offered.induct) simp_all

text \<open>One turn of the loop, by the outcome of its calls.\<close>

lemma send_one_sent:
  assumes "sendFile e c ch (path_resolve e (path f)) (originalname f) (world x) = (Inr ok, w2)"
  shows "send_one e c ch f x
         = (Inr ok,
            \<lparr>world = snd (unlinkSync e (path_resolve e (path f)) w2),
             calls = calls x
               @ [SendFile c ch (path_resolve e (path f)) (originalname f),
                  UnlinkSync (path_resolve e (path f))]\<rparr>)"
  using assms by (simp add: send_one_def ext_def Let_def split: prod.splits)

lemma send_one_fallback:
  assumes "sendFile e c ch (path_resolve e (path f)) (originalname f) (world x) = (Inl err1, w2)"
    and "sendMessage e c ch (path_resolve e (path f)) (originalname f) w2 = (r, w3)"
  shows "send_one e c ch f x
         = (r,
            \<lparr>world = snd (unlinkSync e (path_resolve e (path f)) w3),
             calls = calls x
               @ [SendFile c ch (path_resolve e (path f)) (originalname f),
                  SendMessage c ch (path_resolve e (path f)) (originalname f),
                  UnlinkSync (path_resolve e (path f))]\<rparr>)"
  using assms by (simp add: send_one_def ext_def Let_def split: prod.splits)

lemma send_one_cases:
  obtains (sent) ok w2 where
      "sendFile e c ch (path_resolve e (path f)) (originalname f) (world x) = (Inr ok, w2)"
  | (fallback) err1 w2 r w3 where
      "sendFile e c ch (path_resolve e (path f)) (originalname f) (world x) = (Inl err1, w2)"
      "sendMessage e c ch (path_resolve e (path f)) (originalname f) w2 = (r, w3)"
proof (cases "sendFile e c ch (path_resolve e (path f)) (originalname f) (world x)")
  case (Pair r1 w2)
  show ?thesis
  proof (cases r1)
    case (Inl err1)
    obtain r w3 where "sendMessage e c ch (path_resolve e (path f)) (originalname f) w2 = (r, w3)"
      by (cases "sendMessage e c ch (path_resolve e (path f)) (originalname f) w2")
    with Pair Inl show ?thesis by (auto intro: fallback)
  next
    case (Inr ok)
    with Pair show ?thesis by (auto intro: sent)
  qed
qed

lemma send_one_offered:
  "offered (calls (snd (send_one e c ch f x))) = offered (calls x) @ [path_resolve e (path f)]"
  by (cases rule: send_one_cases [of e c ch f x])
    (simp_all add: send_one_sent send_one_fallback offered_append)

lemma send_one_unlinked:
  "unlinked (calls (snd (send_one e c ch f x))) = unlinked (calls x) @ [path_resolve e (path f)]"
  by (cases rule: send_one_cases [of e c ch f x])
    (simp_all add: send_one_sent send_one_fallback unlinked_append)

lemma send_one_gone:
  assumes "fs_unlink_ok e present"
  shows "\<not> present (world (snd (send_one e c ch f x))) (path_resolve e (path f))"
proof -
  have gone: "\<not> present (snd (unlinkSync e p w)) p" for p w
    using assms unfolding fs_unlink_ok_def by (metis snd_conv)
  show ?thesis
    by (cases rule: send_one_cases [of e c ch f x])
      (simp_all add: send_one_sent send_one_fallback gone)
qed

lemma send_one_stays_gone:
  assumes "fs_unlink_ok e present" and "\<not> present (world x) q"
  shows "\<not> present (world (snd (send_one e c ch f x))) q"
proof -
  have u: "\<not> present w q \<Longrightarrow> \<not> present (snd (unlinkSync e p w)) q" for p w
    using assms(1) unfolding fs_unlink_ok_def by blast
  have s: "\<not> present w q \<Longrightarrow> \<not> present (snd (sendFile e c ch p n w)) q" for p n w
    using assms(1) unfolding fs_unlink_ok_def by blast
  have m: "\<not> present w q \<Longrightarrow> \<not> present (snd (sendMessage e c ch p n w)) q" for p n w
    using assms(1) unfolding fs_unlink_ok_def by blast
  show ?thesis
  proof (cases rule: send_one_cases [of e c ch f x])
    case (sent ok w2)
    have "\<not> present w2 q"
      using s [OF assms(2), of "path_resolve e (path f)" "originalname f"] sent by simp
    then show ?thesis
      using u sent by (simp add: send_one_sent)
  next
    case (fallback err1 w2 r w3)
    have "\<not> present w2 q"
      using s [OF assms(2), of "path_resolve e (path f)" "originalname f"] fallback(1) by simp
    then have "\<not> present w3 q"
      using m [of w2 "path_resolve e (path f)" "originalname f"] fallback(2) by simp
    then show ?thesis
      using u fallback by (simp add: send_one_fallback)
  qed
qed

lemma send_files_stays_gone:
  assumes "fs_unlink_ok e present"
  shows "\<not> present (world x) q \<Longrightarrow> \<not> present (world (snd (send_files e c ch fs x))) q"
proof (induction fs arbitrary: x)
  case Nil
  then show ?case by simp
next
  case (Cons f fs)
  obtain r x2 where one: "send_one e c ch f x = (r, x2)"
    by (cases "send_one e c ch f x")
  have "\<not> present (world x2) q"
    using send_one_stays_gone [OF assms Cons.prems, of c ch f] one by simp
  then show ?case
    using Cons.IH [of x2] one by (cases r) simp_all
qed

lemma send_files_append:
  "send_files e c ch pre x = (Inr u, x1) \<Longrightarrow>
   send_files e c ch (pre @ rest) x = send_files e c ch rest x1"
  by (induction pre arbitrary: x) (auto split: prod.splits sum.splits)

text \<open>
  The files the loop got to are a prefix of the batch; they are the files offered to
  \<open>sendFile\<close> and the files unlinked, in order; the loop returns only after the whole
  batch; and with a working \<open>unlinkSync\<close> none of them is on disk afterwards.
\<close>

lemma send_files_prefix:
  "\<exists>seen rest. fs = seen @ rest
     \<and> (\<forall>u. fst (send_files e c ch fs x) = Inr u \<longrightarrow> rest = [])
     \<and> offered (calls (snd (send_files e c ch fs x)))
         = offered (calls x) @ map (\<lambda>f. path_resolve e (path f)) seen
     \<and> unlinked (calls (snd (send_files e c ch fs x)))
         = unlinked (calls x) @ map (\<lambda>f. path_resolve e (path f)) seen
     \<and> (fs_unlink_ok e present \<longrightarrow>
          (\<forall>f \<in> set seen. \<not> present (world (snd (send_files e c ch fs x)))
                             (path_resolve e (path f))))"
proof (induction fs arbitrary: x)
  case Nil
  show ?case by simp
next
  case (Cons f fs)
  obtain r x2 where one: "send_one e c ch f x = (r, x2)"
    by (cases "send_one e c ch f x")
  have o2: "offered (calls x2) = offered (calls x) @ [path_resolve e (path f)]"
    using send_one_offered [of e c ch f x] one by simp
  have u2: "unlinked (calls x2) = unlinked (calls x) @ [path_resolve e (path f)]"
    using send_one_unlinked [of e c ch f x] one by simp
  have g2: "fs_unlink_ok e present \<Longrightarrow> \<not> present (world x2) (path_resolve e (path f))"
    using send_one_gone [of e present c ch f x] one by simp
  show ?case
  proof (cases r)
    case (Inl err)
    with one have res: "send_files e c ch (f # fs) x = (Inl err, x2)" by simp
    have "f # fs = [f] @ fs" by simp
    then show ?thesis
      using res o2 u2 g2 by (intro exI [of _ "[f]"] exI [of _ fs]) simp
  next
    case (Inr v)
    with one have res: "send_files e c ch (f # fs) x = send_files e c ch fs x2" by simp
    obtain seen' rest where
      split: "fs = seen' @ rest"
      and all: "\<forall>u. fst (send_files e c ch fs x2) = Inr u \<longrightarrow> rest = []"
      and o: "offered (calls (snd (send_files e c ch fs x2)))
                = offered (calls x2) @ map (\<lambda>f. path_resolve e (path f)) seen'"
      and u: "unlinked (calls (snd (send_files e c ch fs x2)))
                = unlinked (calls x2) @ map (\<lambda>f. path_resolve e (path f)) seen'"
      and g: "fs_unlink_ok e present \<longrightarrow>
                (\<forall>f \<in> set seen'. \<not> present (world (snd (send_files e c ch fs x2)))
                                    (path_resolve e (path f)))"
      using Cons.IH [of x2] by blast
    have gf: "fs_unlink_ok e present \<Longrightarrow>
              \<not> present (world (snd (send_files e c ch fs x2))) (path_resolve e (path f))"
      using send_files_stays_gone [of e present x2 "path_resolve e (path f)" c ch fs] g2 by simp
    have "f # fs = (f # seen') @ rest"
      using split by simp
    then show ?thesis
      using res all o u g gf o2 u2
      by (intro exI [of _ "f # seen'"] exI [of _ rest]) auto
  qed
qed

lemma send_unfolded:
  assumes "client g = Some c" and "channelId b = Some ch" and "ch \<noteq> []"
  shows "send e b (Some fs) g x
         = (case send_files e c ch fs x of
              (Inl err, x1) \<Rightarrow> ((500, ErrorBody err), g, x1)
            | (Inr u, x1) \<Rightarrow> ((200, StatusSent), g, x1))"
  using assms by (simp add: send_def)

lemma send_sent_iff:
  assumes "client g = Some c" and "channelId b = Some ch" and "ch \<noteq> []"
  shows "send e b (Some fs) g x = ((200, StatusSent), g, x1)
         \<longleftrightarrow> send_files e c ch fs x = (Inr (), x1)"
  using assms by (auto simp: send_def split: prod.splits sum.splits)

text \<open>
  C3, as stated, fails: the handler calls \<open>unlinkSync\<close> and swallows its exception, so a
  file whose unlink is refused stays on disk, and the answer is still \<open>{status: 'sent'}\<close>.
\<close>

theorem send_leaves_file_on_disk:
  "send locked_disk_env send_body (Some [upload_of ''ok'', upload_of ''big''])
     started_globals staged_io
   = ((200, StatusSent), started_globals,
      \<lparr>world = [''/tmp/tg_uploads/big'', ''/tmp/tg_uploads/bad'', ''/tmp/tg_uploads/late''],
       calls =
         [SendFile (lib_client 0) ''-1001234567890'' ''/tmp/tg_uploads/ok'' ''ok.jpg'',
          UnlinkSync ''/tmp/tg_uploads/ok'',
          SendFile (lib_client 0) ''-1001234567890'' ''/tmp/tg_uploads/big'' ''big.jpg'',
          SendMessage (lib_client 0) ''-1001234567890'' ''/tmp/tg_uploads/big'' ''big.jpg'',
          UnlinkSync ''/tmp/tg_uploads/big'']\<rparr>)
   \<and> on_disk [''/tmp/tg_uploads/big'', ''/tmp/tg_uploads/bad'', ''/tmp/tg_uploads/late'']
        ''/tmp/tg_uploads/big''"
  by (simp add: send_def send_one_def ext_def Let_def locked_disk_env_def disk_env_def
      upload_of_def send_body_def empty_body_def started_globals_def staged_io_def on_disk_def)

text \<open>
  C3, amended. For a \<open>send\<close> request with a client and a channel:
  an empty batch is answered \<open>{status: 'sent'}\<close> with no call. If the batch \<open>pre\<close> is
  answered \<open>{status: 'sent'}\<close>, then for a next file \<open>f\<close>: when \<open>sendFile\<close> returns, the
  batch \<open>pre\<close>, \<open>f\<close> is answered \<open>{status: 'sent'}\<close> and its calls are those of \<open>pre\<close>,
  then \<open>sendFile\<close> and \<open>unlinkSync\<close> for \<open>f\<close>; when \<open>sendFile\<close> throws and
  \<open>sendMessage\<close> returns, likewise with \<open>sendFile\<close>, \<open>sendMessage\<close>, \<open>unlinkSync\<close>;
  when both throw, every batch that starts with \<open>pre\<close>, \<open>f\<close> is answered 500 with the
  exception of \<open>sendMessage\<close>, and its calls are those of \<open>pre\<close>, then \<open>sendFile\<close>,
  \<open>sendMessage\<close>, \<open>unlinkSync\<close> for \<open>f\<close> and nothing more: \<open>f\<close> is unlinked, the
  later files are neither offered nor unlinked. In each case the world after the request is
  the one the \<open>unlinkSync\<close> of \<open>f\<close> left (whatever it returned or threw).
  For every batch, the files handed to \<open>sendFile\<close> are a prefix of the batch, the whole
  batch when the answer is \<open>{status: 'sent'}\<close>; the files handed to \<open>unlinkSync\<close> are the
  same files in the same order; and if \<open>unlinkSync\<close> works (it returns with the path
  removed, and no call of the loop brings a removed path back), none of these files is on
  disk after the request.
\<close>

theorem send_unlinks_each_file_and_aborts:
  assumes "client g = Some c" and "channelId b = Some ch" and "ch \<noteq> []"
  shows "send e b (Some []) g x = ((200, StatusSent), g, x)
       \<and> (\<forall>pre f x1.
            send e b (Some pre) g x = ((200, StatusSent), g, x1) \<longrightarrow>
            (case sendFile e c ch (path_resolve e (path f)) (originalname f) (world x1) of
               (Inr ok, w2) \<Rightarrow>
                 send e b (Some (pre @ [f])) g x
                   = ((200, StatusSent), g,
                      \<lparr>world = snd (unlinkSync e (path_resolve e (path f)) w2),
                       calls = calls x1
                         @ [SendFile c ch (path_resolve e (path f)) (originalname f),
                            UnlinkSync (path_resolve e (path f))]\<rparr>)
             | (Inl err1, w2) \<Rightarrow>
                 (case sendMessage e c ch (path_resolve e (path f)) (originalname f) w2 of
                    (Inr ok, w3) \<Rightarrow>
                      send e b (Some (pre @ [f])) g x
                        = ((200, StatusSent), g,
                           \<lparr>world = snd (unlinkSync e (path_resolve e (path f)) w3),
                            calls = calls x1
                              @ [SendFile c ch (path_resolve e (path f)) (originalname f),
                                 SendMessage c ch (path_resolve e (path f)) (originalname f),
                                 UnlinkSync (path_resolve e (path f))]\<rparr>)
                  | (Inl err2, w3) \<Rightarrow>
                      (\<forall>post.
                         send e b (Some (pre @ f # post)) g x
                           = ((500, ErrorBody err2), g,
                              \<lparr>world = snd (unlinkSync e (path_resolve e (path f)) w3),
                               calls = calls x1
                                 @ [SendFile c ch (path_resolve e (path f)) (originalname f),
                                    SendMessage c ch (path_resolve e (path f)) (originalname f),
                                    UnlinkSync (path_resolve e (path f))]\<rparr>)))))
       \<and> (\<forall>files.
            case send e b (Some files) g x of
              (r, g', x') \<Rightarrow>
                \<exists>seen rest. files = seen @ rest
                  \<and> (r = (200, StatusSent) \<longrightarrow> rest = [])
                  \<and> offered (calls x')
                      = offered (calls x) @ map (\<lambda>f. path_resolve e (path f)) seen
                  \<and> unlinked (calls x')
                      = unlinked (calls x) @ map (\<lambda>f. path_resolve e (path f)) seen
                  \<and> (fs_unlink_ok e present \<longrightarrow>
                       (\<forall>f \<in> set seen. \<not> present (world x') (path_resolve e (path f)))))"
proof (intro conjI allI impI)
  show "send e b (Some []) g x = ((200, StatusSent), g, x)"
    using assms by (simp add: send_def)
next
  fix pre f x1
  assume "send e b (Some pre) g x = ((200, StatusSent), g, x1)"
  then have pre: "send_files e c ch pre x = (Inr (), x1)"
    by (rule iffD1 [OF send_sent_iff [OF assms]])
  have one: "send_files e c ch (pre @ [f]) x = send_files e c ch [f] x1"
    and more: "send_files e c ch (pre @ f # post) x = send_files e c ch (f # post) x1" for post
    using pre by (rule send_files_append)+
  show "case sendFile e c ch (path_resolve e (path f)) (originalname f) (world x1) of
          (Inr ok, w2) \<Rightarrow>
            send e b (Some (pre @ [f])) g x
              = ((200, StatusSent), g,
                 \<lparr>world = snd (unlinkSync e (path_resolve e (path f)) w2),
                  calls = calls x1
                    @ [SendFile c ch (path_resolve e (path f)) (originalname f),
                       UnlinkSync (path_resolve e (path f))]\<rparr>)
        | (Inl err1, w2) \<Rightarrow>
            (case sendMessage e c ch (path_resolve e (path f)) (originalname f) w2 of
               (Inr ok, w3) \<Rightarrow>
                 send e b (Some (pre @ [f])) g x
                   = ((200, StatusSent), g,
                      \<lparr>world = snd (unlinkSync e (path_resolve e (path f)) w3),
                       calls = calls x1
                         @ [SendFile c ch (path_resolve e (path f)) (originalname f),
                            SendMessage c ch (path_resolve e (path f)) (originalname f),
                            UnlinkSync (path_resolve e (path f))]\<rparr>)
             | (Inl err2, w3) \<Rightarrow>
                 (\<forall>post.
                    send e b (Some (pre @ f # post)) g x
                      = ((500, ErrorBody err2), g,
                         \<lparr>world = snd (unlinkSync e (path_resolve e (path f)) w3),
                          calls = calls x1
                            @ [SendFile c ch (path_resolve e (path f)) (originalname f),
                               SendMessage c ch (path_resolve e (path f)) (originalname f),
                               UnlinkSync (path_resolve e (path f))]\<rparr>)))"
  proof (cases rule: send_one_cases [of e c ch f x1])
    case (sent ok w2)
    then show ?thesis
      using one by (simp add: send_unfolded [OF assms] send_one_sent)
  next
    case (fallback err1 w2 r w3)
    then show ?thesis
      using one more
      by (cases r) (simp_all add: send_unfolded [OF assms] send_one_fallback)
  qed
next
  fix files
  obtain r1 x' where res: "send_files e c ch files x = (r1, x')"
    by (cases "send_files e c ch files x")
  obtain seen rest where
    split: "files = seen @ rest"
    and all: "\<forall>u. fst (send_files e c ch files x) = Inr u \<longrightarrow> rest = []"
    and o: "offered (calls (snd (send_files e c ch files x)))
              = offered (calls x) @ map (\<lambda>f. path_resolve e (path f)) seen"
    and u: "unlinked (calls (snd (send_files e c ch files x)))
              = unlinked (calls x) @ map (\<lambda>f. path_resolve e (path f)) seen"
    and gone: "fs_unlink_ok e present \<longrightarrow>
              (\<forall>f \<in> set seen. \<not> present (world (snd (send_files e c ch files x)))
                                 (path_resolve e (path f)))"
    using send_files_prefix [of files e c ch x present] by blast
  have fsts: "fst (send_files e c ch files x) = r1" and snds: "snd (send_files e c ch files x) = x'"
    using res by simp_all
  show "case send e b (Some files) g x of
          (r, g', x') \<Rightarrow>
            \<exists>seen rest. files = seen @ rest
              \<and> (r = (200, StatusSent) \<longrightarrow> rest = [])
              \<and> offered (calls x')
                  = offered (calls x) @ map (\<lambda>f. path_resolve e (path f)) seen
              \<and> unlinked (calls x')
                  = unlinked (calls x) @ map (\<lambda>f. path_resolve e (path f)) seen
              \<and> (fs_unlink_ok e present \<longrightarrow>
                   (\<forall>f \<in> set seen. \<not> present (world x') (path_resolve e (path f))))"
  proof (cases r1)
    case (Inl err)
    then have eq: "send e b (Some files) g x = ((500, ErrorBody err), g, x')"
      using res by (simp add: send_unfolded [OF assms])
    show ?thesis
      unfolding eq prod.case
      using split o u gone snds by (intro exI [of _ seen] exI [of _ rest]) simp
  next
    case (Inr v)
    then have eq: "send e b (Some files) g x = ((200, StatusSent), g, x')"
      using res by (simp add: send_unfolded [OF assms])
    show ?thesis
      unfolding eq prod.case
      using split all o u gone fsts snds Inr by (intro exI [of _ seen] exI [of _ rest]) simp
  qed
qed

theorem send_unlinks_each_file_and_aborts_witness:
  "fs_unlink_ok disk_env on_disk
   \<and> send disk_env send_body
       (Some [upload_of ''ok'', upload_of ''big'', upload_of ''bad'', upload_of ''late''])
       started_globals staged_io
     = ((500, ErrorBody ''Error: MEDIA_EMPTY''), started_globals,
        \<lparr>world = [''/tmp/tg_uploads/late''],
         calls =
           [SendFile (lib_client 0) ''-1001234567890'' ''/tmp/tg_uploads/ok'' ''ok.jpg'',
            UnlinkSync ''/tmp/tg_uploads/ok'',
            SendFile (lib_client 0) ''-1001234567890'' ''/tmp/tg_uploads/big'' ''big.jpg'',
            SendMessage (lib_client 0) ''-1001234567890'' ''/tmp/tg_uploads/big'' ''big.jpg'',
            UnlinkSync ''/tmp/tg_uploads/big'',
            SendFile (lib_client 0) ''-1001234567890'' ''/tmp/tg_uploads/bad'' ''bad.jpg'',
            SendMessage (lib_client 0) ''-1001234567890'' ''/tmp/tg_uploads/bad'' ''bad.jpg'',
            UnlinkSync ''/tmp/tg_uploads/bad'']\<rparr>)"
proof -
  let ?x1 = "\<lparr>world = [''/tmp/tg_uploads/bad'', ''/tmp/tg_uploads/late''],
       calls =
         [SendFile (lib_client 0) ''-1001234567890'' ''/tmp/tg_uploads/ok'' ''ok.jpg'',
          UnlinkSync ''/tmp/tg_uploads/ok'',
          SendFile (lib_client 0) ''-1001234567890'' ''/tmp/tg_uploads/big'' ''big.jpg'',
          SendMessage (lib_client 0) ''-1001234567890'' ''/tmp/tg_uploads/big'' ''big.jpg'',
          UnlinkSync ''/tmp/tg_uploads/big'']\<rparr>"
  have fs: "fs_unlink_ok disk_env on_disk"
    by (simp add: fs_unlink_ok_def disk_env_def on_disk_def)
  have c: "client started_globals = Some (lib_client 0)"
    by (simp add: started_globals_def)
  have ch: "channelId send_body = Some ''-1001234567890''"
    by (simp add: send_body_def)
  have pre: "send disk_env send_body (Some [upload_of ''ok'', upload_of ''big''])
               started_globals staged_io = ((200, StatusSent), started_globals, ?x1)"
    by (simp add: send_def send_one_def ext_def Let_def disk_env_def upload_of_def
        send_body_def empty_body_def started_globals_def staged_io_def)
  have ne: "''-1001234567890'' \<noteq> []"
    by simp
  note step = send_unlinks_each_file_and_aborts [OF c ch ne, where e = disk_env
      and x = staged_io and present = on_disk, THEN conjunct2, THEN conjunct1, rule_format,
      OF pre, where f = "upload_of ''bad''"]
  show ?thesis
    using fs step by (simp add: disk_env_def upload_of_def)
qed

subsection \<open>\<open>channels\<close>\<close>

lemma digit_char_in_digits: "digit_char d \<in> set ''0123456789''"
  unfolding digit_char_def by (rule nth_mem) simp

lemma digit_value_digit_char: "digit_value (digit_char d) = d mod 10"
proof -
  define k where "k = d mod 10"
  then have "k < 10" by simp
  then have "k = 0 \<or> k = 1 \<or> k = 2 \<or> k = 3 \<or> k = 4 \<or> k = 5 \<or> k = 6 \<or> k = 7 \<or> k = 8 \<or> k = 9"
    by arith
  then have "digit_value (''0123456789'' ! k) = k"
    unfolding digit_value_def by (elim disjE) simp_all
  then show ?thesis
    by (simp add: digit_char_def k_def)
qed

lemma nat_of_decimal_snoc:
  "nat_of_decimal (s @ [ch]) = 10 * nat_of_decimal s + digit_value ch"
  by (simp add: nat_of_decimal_def)

lemma nat_of_decimal_toString_nat: "nat_of_decimal (toString_nat n) = n"
proof (induction n rule: toString_nat.induct)
  case (1 n)
  show ?case
  proof (cases "n < 10")
    case True
    then show ?thesis
      by (subst toString_nat.simps) (simp add: nat_of_decimal_def digit_value_digit_char)
  next
    case False
    with "1" have "nat_of_decimal (toString_nat (n div 10)) = n div 10" by simp
    with False show ?thesis
      by (subst toString_nat.simps) (simp add: nat_of_decimal_snoc digit_value_digit_char)
  qed
qed

lemma toString_nat_digits: "toString_nat n \<noteq> [] \<and> set (toString_nat n) \<subseteq> set ''0123456789''"
proof (induction n rule: toString_nat.induct)
  case (1 n)
  show ?case
  proof (cases "n < 10")
    case True
    then show ?thesis
      using digit_char_in_digits [of n] by (subst (1 2) toString_nat.simps) simp
  next
    case False
    with "1" have "set (toString_nat (n div 10)) \<subseteq> set ''0123456789''" by simp
    with False show ?thesis
      using digit_char_in_digits [of "n mod 10"] by (subst (1 2) toString_nat.simps) simp
  qed
qed

lemma int_of_decimal_toString_int: "int_of_decimal (toString_int i) = i"
proof (cases "i < 0")
  case True
  then show ?thesis
    by (simp add: int_of_decimal_def toString_int_def nat_of_decimal_toString_nat)
next
  case False
  obtain ch r where s: "toString_nat (nat i) = ch # r"
    using toString_nat_digits [of "nat i"] by (cases "toString_nat (nat i)") auto
  have "ch \<in> set ''0123456789''"
    using toString_nat_digits [of "nat i"] s by auto
  then have "ch \<noteq> CHR ''-''" by auto
  with False s show ?thesis
    using nat_of_decimal_toString_nat [of "nat i"]
    by (simp add: int_of_decimal_def toString_int_def)
qed

text \<open>
  C9. With a client, when \<open>getDialogs\<close> returns the dialogs \<open>ds\<close>, the answer of
  \<open>channels\<close> is 200 with exactly the dialogs of \<open>ds\<close> whose \<open>isChannel\<close> is true, in
  the order of \<open>ds\<close>, each as \<open>{id, title}\<close> with its \<open>title\<close> and with \<open>id\<close> the
  decimal string of its identifier: read back as a decimal number, the string is the
  identifier, whatever its size or sign. \<open>getDialogs\<close> is the only call made and no
  variable changes.
\<close>

theorem channels_lists_channel_dialogs:
  assumes "client g = Some c" and "getDialogs e c (world x) = (Inr ds, w1)"
  shows "channels e g x
           = ((200, ChannelList
                 (map (\<lambda>d. Channel (toString_int (dialog_id d)) (title d))
                    (filter isChannel ds))),
              g, \<lparr>world = w1, calls = calls x @ [GetDialogs c]\<rparr>)
       \<and> (\<forall>i. int_of_decimal (toString_int i) = i)"
  using assms by (simp add: channels_def ext_def int_of_decimal_toString_int)

theorem channels_lists_channel_dialogs_witness:
  "channels dialogs_env started_globals started_io
     = ((200, ChannelList [Channel ''-1001234567890'' ''News'',
                           Channel ''9007199254740993'' ''Big'']),
        started_globals,
        \<lparr>world = 1, calls = calls started_io @ [GetDialogs (lib_client 0)]\<rparr>)"
proof -
  have c: "client started_globals = Some (lib_client 0)"
    by (simp add: started_globals_def)
  have d: "getDialogs dialogs_env (lib_client 0) (world started_io)
     = (Inr [\<lparr>isChannel = False, dialog_id = 777000, title = ''Telegram''\<rparr>,
              \<lparr>isChannel = True, dialog_id = - 1001234567890, title = ''News''\<rparr>,
              \<lparr>isChannel = False, dialog_id = - 4567, title = ''Family''\<rparr>,
              \<lparr>isChannel = True, dialog_id = 9007199254740993, title = ''Big''\<rparr>], 1)"
    by (simp add: dialogs_env_def quiet_env_def started_io_def)
  show ?thesis
    using channels_lists_channel_dialogs [OF c d]
    by (simp add: toString_int_def toString_nat.simps digit_char_def)
qed

subsection \<open>Requests before \<open>start\<close>\<close>

text \<open>
  C6. While no client exists (\<open>client\<close> is \<open>null\<close>), \<open>sendCode\<close>, \<open>verify\<close>,
  \<open>channels\<close> and \<open>send\<close> answer 400 with their "not initialized" / "not logged in"
  message, whatever the request holds, and leave the variables and the outside world as
  they were: the log of external calls is unchanged, so no call to the messaging client
  (or to anything else) was made.
\<close>

theorem no_client_no_call:
  assumes "client g = None"
  shows "auth_sendCode e b g x
           = ((400, ErrorBody ''client not initialized (call /auth/start)''), g, x)
       \<and> auth_verify e b g x = ((400, ErrorBody ''client not initialized''), g, x)
       \<and> channels e g x = ((400, ErrorBody ''not logged in''), g, x)
       \<and> send e b files g x = ((400, ErrorBody ''not logged in''), g, x)"
  using assms by (simp add: auth_sendCode_def auth_verify_def channels_def send_def)

theorem no_client_no_call_witness:
  "client initial_globals = None
   \<and> auth_sendCode quiet_env (verify_body ''12345'') initial_globals fresh_io
       = ((400, ErrorBody ''client not initialized (call /auth/start)''),
          initial_globals, fresh_io)
   \<and> auth_verify quiet_env (verify_body ''12345'') initial_globals fresh_io
       = ((400, ErrorBody ''client not initialized''), initial_globals, fresh_io)
   \<and> channels quiet_env initial_globals fresh_io
       = ((400, ErrorBody ''not logged in''), initial_globals, fresh_io)
   \<and> send quiet_env (verify_body ''12345'') (Some [upload_of ''ok'']) initial_globals fresh_io
       = ((400, ErrorBody ''not logged in''), initial_globals, fresh_io)
   \<and> calls fresh_io = []"
proof -
  have h: "client initial_globals = None"
    by (simp add: initial_globals_def)
  show ?thesis
    using h no_client_no_call [OF h, where e = quiet_env and b = "verify_body ''12345''"
        and x = fresh_io and files = "Some [upload_of ''ok'']"]
    by (simp add: fresh_io_def)
qed

subsection \<open>\<open>start\<close> when the connection fails\<close>

text \<open>
  C10. A \<open>start\<close> request with a truthy \<open>apiId\<close> and \<open>apiHash\<close> whose \<open>createClient\<close>
  throws (in the constructor or in \<open>connect\<close>) is answered 500 with the exception's text.
  The remembered credentials are already those of this request; the client, the session
  string, the phone table and the QR attempt are the previous ones.
\<close>

theorem start_failure_is_not_atomic:
  assumes "apiId b = Some n" and "n \<noteq> 0" and "apiHash b = Some h" and "h \<noteq> []"
    and "createClient e (apiId b) (apiHash b) (sessionString g) x = (Inl err, x1)"
  shows "case auth_start e b g x of
           (r, g', x') \<Rightarrow>
             r = (500, ErrorBody err) \<and> x' = x1
           \<and> storedApiId g' = Some n \<and> storedApiHash g' = Some h
           \<and> client g' = client g \<and> sessionString g' = sessionString g
           \<and> phoneState g' = phoneState g \<and> qrWaiter g' = qrWaiter g"
  using assms by (simp add: auth_start_def falsy_num_def falsy_str_def Number_def)

theorem start_failure_is_not_atomic_witness:
  "case auth_start offline_env (empty_body\<lparr>apiId := Some 777, apiHash := Some ''new''\<rparr>)
          started_globals started_io of
     (r, g', x') \<Rightarrow>
       r = (500, ErrorBody ''Error: connect ETIMEDOUT'')
     \<and> storedApiId started_globals = Some 12345 \<and> storedApiId g' = Some 777
     \<and> storedApiHash started_globals = Some ''abc'' \<and> storedApiHash g' = Some ''new''
     \<and> client g' = Some (lib_client 0) \<and> sessionString g' = []"
proof -
  let ?b = "empty_body\<lparr>apiId := Some 777, apiHash := Some ''new''\<rparr>"
  have c: "createClient offline_env (apiId ?b) (apiHash ?b) (sessionString started_globals)
             started_io
           = (Inl ''Error: connect ETIMEDOUT'',
              \<lparr>world = 2, calls = calls started_io
                 @ [NewTelegramClient [] 777 (Some ''new''), Connect (lib_client 1)]\<rparr>)"
    by (simp add: createClient_def ext_def offline_env_def quiet_env_def empty_body_def
        started_globals_def started_io_def initial_globals_def Number_def)
  show ?thesis
    using start_failure_is_not_atomic [OF _ _ _ _ c, where n = 777 and h = "''new''"]
    by (simp add: empty_body_def started_globals_def initial_globals_def split: prod.splits)
qed

end
